theory Spec2Isabelle
  imports Main
begin

section \<open>The sensor and the world around the program\<close>

text \<open>
  The program \<^verbatim>\<open>examples/fingerprint_pi5.py\<close> drives a fingerprint sensor through the
  methods of an \<^verbatim>\<open>adafruit_fingerprint.Adafruit_Fingerprint\<close> object, writes to an
  indicator line and prints to the console. The library is not one of the sources, so the
  answers of the sensor are a parameter of the model: the world holds the list of answers
  the sensor will give, one per method call, and the history of everything the program did.
\<close>

text \<open>
  Modelled from the spec: the status constants of \<^verbatim>\<open>adafruit_fingerprint\<close> that the program
  compares against (the closed enumeration StatusCode of the data model), kept under the
  names the program uses. \<open>OTHER n\<close> stands for every status the program does not name.
\<close>

datatype status =
    OK | NOFINGER | IMAGEFAIL | IMAGEMESS | FEATUREFAIL | INVALIDIMAGE
  | ENROLLMISMATCH | BADLOCATION | FLASHERR | OTHER nat

text \<open>The sensor methods the program calls, with their argument.\<close>

datatype call =
    GetImage | Image2Tz int | FingerSearch | CreateModel | StoreModel int | DeleteModel int

text \<open>
  What a method call does: it returns a status, or it raises (the library raises on a
  failed transfer, and an interrupt during the call surfaces the same way).
\<close>

datatype response = Returns status | Raises

text \<open>
  The exceptions that can leave a function of the program: the \<^verbatim>\<open>ValueError\<close> of
  \<^verbatim>\<open>int(...)\<close> on a line that is no integer, and whatever a sensor call raised.
\<close>

datatype exn = ValueError | SensorError

text \<open>
  Everything the program does that can be observed, in order: a sensor round trip with its
  answer, \<^verbatim>\<open>print(s)\<close>, \<^verbatim>\<open>print(s, end="")\<close>, the line
  \<^verbatim>\<open>print("Found #", finger.finger_id, "with confidence", finger.confidence)\<close> (its two
  numbers live in the library object), \<^verbatim>\<open>input(prompt)\<close>, \<^verbatim>\<open>led_line.set_value(v)\<close> and
  \<^verbatim>\<open>time.sleep(n)\<close>.
\<close>

datatype event =
    Call call response
  | Print string
  | PrintNoNl string
  | PrintFound
  | Input string
  | Led int
  | Sleep nat

record world =
  script :: "response list"
  trace :: "event list"

text \<open>
  A run is driven by a finite prefix of the sensor's answers. It ends by returning a
  value, by an exception that leaves the function, or it is \<open>Blocked\<close>: every answer of
  the prefix has been used and the program is inside its next sensor call. The busy-wait
  loops of the program have no other way to stop, so a run that is \<open>Blocked\<close> for every
  prefix of an answer stream is a run that never returns.
\<close>

datatype 'a outcome = Ret 'a | Raised exn | Blocked

text \<open>The program does something observable: the event is appended to the history.\<close>

definition emit :: "event \<Rightarrow> world \<Rightarrow> world" where
  "emit e w = w\<lparr>trace := trace w @ [e]\<rparr>"

text \<open>
  Sequencing: the rest of a function runs on the value its first step returned; an
  exception, or a step that is blocked, ends the function there (nothing in
  \<^verbatim>\<open>get_fingerprint\<close>, \<^verbatim>\<open>enroll_finger\<close> or the menu branches catches an exception).
\<close>

definition bind ::
  "'a outcome \<times> world \<Rightarrow> ('a \<Rightarrow> world \<Rightarrow> 'b outcome \<times> world) \<Rightarrow> 'b outcome \<times> world" where
  "bind m f = (case m of
      (Ret x, w) \<Rightarrow> f x w
    | (Raised e, w) \<Rightarrow> (Raised e, w)
    | (Blocked, w) \<Rightarrow> (Blocked, w))"

text \<open>
  Modelled from the spec: the methods of the library object (\<^verbatim>\<open>get_image\<close>,
  \<^verbatim>\<open>image_2_tz\<close>, \<^verbatim>\<open>finger_search\<close>, \<^verbatim>\<open>create_model\<close>, \<^verbatim>\<open>store_model\<close>,
  \<^verbatim>\<open>delete_model\<close>), which are not among the sources. Each is one round trip that
  returns a status code; here it may also raise. The answer is the next one of the script,
  so what is proved below holds whatever the sensor and the library answer.
\<close>

definition round_trip :: "call \<Rightarrow> world \<Rightarrow> status outcome \<times> world" where
  "round_trip c w = (case script w of
      [] \<Rightarrow> (Blocked, w)
    | r # rs \<Rightarrow>
        (case r of Returns st \<Rightarrow> Ret st | Raises \<Rightarrow> Raised SensorError,
         emit (Call c r) (w\<lparr>script := rs\<rparr>)))"

definition get_image :: "world \<Rightarrow> status outcome \<times> world" where
  "get_image = round_trip GetImage"

definition image_2_tz :: "int \<Rightarrow> world \<Rightarrow> status outcome \<times> world" where
  "image_2_tz slot = round_trip (Image2Tz slot)"

definition finger_search :: "world \<Rightarrow> status outcome \<times> world" where
  "finger_search = round_trip FingerSearch"

definition create_model :: "world \<Rightarrow> status outcome \<times> world" where
  "create_model = round_trip CreateModel"

definition store_model :: "int \<Rightarrow> world \<Rightarrow> status outcome \<times> world" where
  "store_model location = round_trip (StoreModel location)"

definition delete_model :: "int \<Rightarrow> world \<Rightarrow> status outcome \<times> world" where
  "delete_model location = round_trip (DeleteModel location)"

lemma bind_cong [fundef_cong]:
  assumes "m = m'" and "\<And>x w. m' = (Ret x, w) \<Longrightarrow> f x w = f' x w"
  shows "bind m f = bind m' f'"
  using assms by (auto simp: bind_def split: prod.splits outcome.splits)

lemma round_trip_shorter:
  "round_trip c w = (Ret st, w') \<Longrightarrow> length (script w') < length (script w)"
  by (auto simp: round_trip_def emit_def split: list.splits response.splits)

lemma get_image_shorter:
  "get_image w = (Ret st, w') \<Longrightarrow> length (script w') < length (script w)"
  unfolding get_image_def by (rule round_trip_shorter)

section \<open>Identification: \<^verbatim>\<open>get_fingerprint\<close>\<close>

text \<open>Lines 58-59: \<^verbatim>\<open>while finger.get_image() != adafruit_fingerprint.OK: pass\<close>.\<close>

function get_fingerprint_poll :: "world \<Rightarrow> unit outcome \<times> world" where
  "get_fingerprint_poll w =
     bind (get_image w) (\<lambda>i w1. if i \<noteq> OK then get_fingerprint_poll w1 else (Ret (), w1))"
  by pat_completeness auto
termination
  by (relation "measure (\<lambda>w. length (script w))") (auto dest: get_image_shorter)

declare get_fingerprint_poll.simps [simp del]

definition get_fingerprint :: "world \<Rightarrow> bool outcome \<times> world" where
  "get_fingerprint w =
     bind (get_fingerprint_poll (emit (Print ''Waiting for image...'') w)) (\<lambda>u w1.
     bind (image_2_tz 1 (emit (Print ''Templating...'') w1)) (\<lambda>i w2.
       if i \<noteq> OK then (Ret False, w2)
       else
         bind (finger_search (emit (Print ''Searching...'') w2)) (\<lambda>j w3.
           if j \<noteq> OK then (Ret False, w3) else (Ret True, w3))))"

section \<open>Enrollment: \<^verbatim>\<open>enroll_finger\<close>\<close>

text \<open>
  Lines 79-91, the capture loop of a pass. \<open>Ret None\<close> is the \<^verbatim>\<open>break\<close>,
  \<open>Ret (Some b)\<close> is \<^verbatim>\<open>return b\<close> out of \<^verbatim>\<open>enroll_finger\<close>.
\<close>

function enroll_capture :: "world \<Rightarrow> bool option outcome \<times> world" where
  "enroll_capture w =
     bind (get_image w) (\<lambda>i w1.
       if i = OK then (Ret None, emit (Print ''Image taken'') w1)
       else if i = NOFINGER then enroll_capture (emit (PrintNoNl ''.'') w1)
       else if i = IMAGEFAIL then (Ret (Some False), emit (Print ''Imaging error'') w1)
       else (Ret (Some False), emit (Print ''Other error'') w1))"
  by pat_completeness auto
termination
  by (relation "measure (\<lambda>w. length (script w))")
     (auto dest: get_image_shorter simp: emit_def)

declare enroll_capture.simps [simp del]

text \<open>Lines 111-112: \<^verbatim>\<open>while i != adafruit_fingerprint.NOFINGER: i = finger.get_image()\<close>.\<close>

function enroll_removal :: "status \<Rightarrow> world \<Rightarrow> unit outcome \<times> world" where
  "enroll_removal i w =
     (if i \<noteq> NOFINGER then bind (get_image w) (\<lambda>i' w1. enroll_removal i' w1)
      else (Ret (), w))"
  by pat_completeness auto
termination
  by (relation "measure (\<lambda>(i, w). length (script w))") (auto dest: get_image_shorter)

declare enroll_removal.simps [simp del]

text \<open>Lines 74-112, the body of \<^verbatim>\<open>for fingerimg in range(1, 3)\<close>.\<close>

definition enroll_pass :: "int \<Rightarrow> world \<Rightarrow> bool option outcome \<times> world" where
  "enroll_pass fingerimg w =
     bind (enroll_capture
             (emit (PrintNoNl (if fingerimg = 1 then ''Place finger on sensor...''
                               else ''Place same finger again...'')) w)) (\<lambda>r w1.
       case r of
         Some b \<Rightarrow> (Ret (Some b), w1)
       | None \<Rightarrow>
           bind (image_2_tz fingerimg (emit (PrintNoNl ''Templating...'') w1)) (\<lambda>i w2.
             if i = OK then
               (let w3 = emit (Print ''Templated'') w2 in
                if fingerimg = 1 then
                  bind (enroll_removal i (emit (Sleep 1) (emit (Print ''Remove finger'') w3)))
                    (\<lambda>u w4. (Ret None, w4))
                else (Ret None, w3))
             else
               (Ret (Some False),
                emit (Print (if i = IMAGEMESS then ''Image too messy''
                             else if i = FEATUREFAIL then ''Could not identify features''
                             else if i = INVALIDIMAGE then ''Image invalid''
                             else ''Other error'')) w2)))"

fun enroll_passes :: "int list \<Rightarrow> world \<Rightarrow> bool option outcome \<times> world" where
  "enroll_passes [] w = (Ret None, w)"
| "enroll_passes (fingerimg # rest) w =
     bind (enroll_pass fingerimg w) (\<lambda>r w1.
       case r of Some b \<Rightarrow> (Ret (Some b), w1) | None \<Rightarrow> enroll_passes rest w1)"

text \<open>Python's \<^verbatim>\<open>str\<close> of an integer, for the f-string of line 125.\<close>

fun str_nat :: "nat \<Rightarrow> string" where
  "str_nat n =
     (if n < 10 then [''0123456789'' ! n]
      else str_nat (n div 10) @ [''0123456789'' ! (n mod 10)])"

declare str_nat.simps [simp del]

definition str_int :: "int \<Rightarrow> string" where
  "str_int i = (if i < 0 then ''-'' @ str_nat (nat (- i)) else str_nat (nat i))"

text \<open>Lines 114-138, what follows the two passes.\<close>

definition enroll_model_and_store :: "int \<Rightarrow> world \<Rightarrow> bool outcome \<times> world" where
  "enroll_model_and_store location w =
     bind (create_model (emit (PrintNoNl ''Creating model...'') w)) (\<lambda>i w1.
       if i = OK then
         bind (store_model location
                 (emit (PrintNoNl (''Storing model #'' @ str_int location @ ''...''))
                    (emit (Print ''Created'') w1))) (\<lambda>j w2.
           if j = OK then (Ret True, emit (Print ''Stored'') w2)
           else
             (Ret False,
              emit (Print (if j = BADLOCATION then ''Bad storage location''
                           else if j = FLASHERR then ''Flash storage error''
                           else ''Other error'')) w2))
       else
         (Ret False,
          emit (Print (if i = ENROLLMISMATCH then ''Prints did not match''
                       else ''Other error'')) w1))"

text \<open>Lines 71-138.\<close>

definition enroll_finger :: "int \<Rightarrow> world \<Rightarrow> bool outcome \<times> world" where
  "enroll_finger location w =
     bind (enroll_passes [1, 2] w) (\<lambda>r w1.
       case r of
         Some b \<Rightarrow> (Ret b, w1)
       | None \<Rightarrow> enroll_model_and_store location w1)"

section \<open>The menu commands of \<^verbatim>\<open>main\<close>\<close>

text \<open>
  The branches of the menu loop. \<^verbatim>\<open>int(input(...))\<close> is taken as its result: \<open>Some n\<close>
  when the line read is the integer \<open>n\<close>, \<open>None\<close> when \<^verbatim>\<open>int\<close> raises \<^verbatim>\<open>ValueError\<close>.
\<close>

text \<open>Lines 171-177, command \<^verbatim>\<open>e\<close>.\<close>

definition main_enroll :: "int option \<Rightarrow> world \<Rightarrow> unit outcome \<times> world" where
  "main_enroll answer w =
     (let w1 = emit (Input ''Enter ID # (1-127): '') (emit (Led 1) w) in
      case answer of
        None \<Rightarrow> (Raised ValueError, w1)
      | Some location \<Rightarrow>
          bind (if location > 0 \<and> location < 128
                then bind (enroll_finger location w1) (\<lambda>b w2. (Ret (), w2))
                else (Ret (), w1)) (\<lambda>u w3.
            (Ret (), emit (Led 0) w3)))"


text \<open>Lines 188-194, command \<^verbatim>\<open>d\<close>.\<close>

definition main_delete :: "int option \<Rightarrow> world \<Rightarrow> unit outcome \<times> world" where
  "main_delete answer w =
     (let w1 = emit (Input ''Enter ID # to delete (1-127): '') w in
      case answer of
        None \<Rightarrow> (Raised ValueError, w1)
      | Some location \<Rightarrow>
          if location > 0 \<and> location < 128 then
            bind (delete_model location w1) (\<lambda>i w2.
              if i = OK then (Ret (), emit (Print ''Deleted!'') w2)
              else (Ret (), emit (Print ''Failed to delete'') w2))
          else (Ret (), w1))"

section \<open>Describing runs\<close>

text \<open>Polls of \<^verbatim>\<open>get_image\<close> that are answered with the statuses \<open>xs\<close>, in order.\<close>

definition polls :: "status list \<Rightarrow> event list" where
  "polls xs = map (\<lambda>i. Call GetImage (Returns i)) xs"

text \<open>\<open>n\<close> rounds of the capture loop on \<^verbatim>\<open>NOFINGER\<close>: the poll and the dot it prints.\<close>

definition dots :: "nat \<Rightarrow> event list" where
  "dots n = concat (replicate n [Call GetImage (Returns NOFINGER), PrintNoNl ''.''])"

text \<open>What pass \<open>k\<close> of the enrollment loop can do at all: poll, extract into slot \<open>k\<close>, print (any text but the prompt of the other pass) and sleep.\<close>

fun pass_event :: "int \<Rightarrow> event \<Rightarrow> bool" where
  "pass_event k (Call c r) = (c = GetImage \<or> c = Image2Tz k)"
| "pass_event k (Print s) = True"
| "pass_event k (PrintNoNl s) =
     (s \<noteq> (if k = 1 then ''Place same finger again...'' else ''Place finger on sensor...''))"
| "pass_event k (Sleep n) = True"
| "pass_event k PrintFound = False"
| "pass_event k (Input p) = False"
| "pass_event k (Led v) = False"

text \<open>The prompt that opens pass \<open>k\<close> (lines 74-77).\<close>

definition prompt :: "int \<Rightarrow> string" where
  "prompt k = (if k = 1 then ''Place finger on sensor...'' else ''Place same finger again...'')"

text \<open>The answers that carry pass 1 to its end: \<open>n\<close> polls without a finger, the capture, the extraction into slot 1, then the removal wait: the statuses \<open>xs\<close> and the \<^verbatim>\<open>NOFINGER\<close> that ends it.\<close>

definition first_pass_answers :: "nat \<Rightarrow> status list \<Rightarrow> status list" where
  "first_pass_answers n xs = replicate n NOFINGER @ [OK, OK] @ xs @ [NOFINGER]"

text \<open>What pass 1 does on these answers.\<close>

definition first_pass_events :: "nat \<Rightarrow> status list \<Rightarrow> event list" where
  "first_pass_events n xs =
     [PrintNoNl ''Place finger on sensor...''] @ dots n @
     [Call GetImage (Returns OK), Print ''Image taken'', PrintNoNl ''Templating...'',
      Call (Image2Tz 1) (Returns OK), Print ''Templated'', Print ''Remove finger'', Sleep 1] @
     polls xs @ [Call GetImage (Returns NOFINGER)]"

text \<open>The answers that carry pass 2 to its end: \<open>n\<close> polls without a finger, the capture, the extraction into slot 2.\<close>

definition second_pass_answers :: "nat \<Rightarrow> status list" where
  "second_pass_answers n = replicate n NOFINGER @ [OK, OK]"

text \<open>What pass 2 does on these answers.\<close>

definition second_pass_events :: "nat \<Rightarrow> event list" where
  "second_pass_events n =
     [PrintNoNl ''Place same finger again...''] @ dots n @
     [Call GetImage (Returns OK), Print ''Image taken'', PrintNoNl ''Templating...'',
      Call (Image2Tz 2) (Returns OK), Print ''Templated'']"

section \<open>Unfolding the loops on a script\<close>

text \<open>On a world that is written out, each sensor call and each round of a loop is one rewriting step.\<close>

lemma bind_simps [simp]:
  "bind (Ret x, w) f = f x w"
  "bind (Raised e, w) f = (Raised e, w)"
  "bind (Blocked, w) f = (Blocked, w)"
  by (simp_all add: bind_def)

lemma emit_simp [simp]:
  "emit e \<lparr>script = s, trace = t\<rparr> = \<lparr>script = s, trace = t @ [e]\<rparr>"
  by (simp add: emit_def)

lemma round_trip_simps [simp]:
  "round_trip c \<lparr>script = [], trace = t\<rparr> = (Blocked, \<lparr>script = [], trace = t\<rparr>)"
  "round_trip c \<lparr>script = Returns i # rs, trace = t\<rparr> =
     (Ret i, \<lparr>script = rs, trace = t @ [Call c (Returns i)]\<rparr>)"
  "round_trip c \<lparr>script = Raises # rs, trace = t\<rparr> =
     (Raised SensorError, \<lparr>script = rs, trace = t @ [Call c Raises]\<rparr>)"
  by (simp_all add: round_trip_def)

lemmas primitive_defs =
  get_image_def image_2_tz_def finger_search_def create_model_def store_model_def
  delete_model_def

lemma get_fingerprint_poll_simps [simp]:
  "get_fingerprint_poll \<lparr>script = [], trace = t\<rparr> = (Blocked, \<lparr>script = [], trace = t\<rparr>)"
  "get_fingerprint_poll \<lparr>script = Raises # rs, trace = t\<rparr> =
     (Raised SensorError, \<lparr>script = rs, trace = t @ [Call GetImage Raises]\<rparr>)"
  "get_fingerprint_poll \<lparr>script = Returns i # rs, trace = t\<rparr> =
     (if i \<noteq> OK
      then get_fingerprint_poll \<lparr>script = rs, trace = t @ [Call GetImage (Returns i)]\<rparr>
      else (Ret (), \<lparr>script = rs, trace = t @ [Call GetImage (Returns i)]\<rparr>))"
  by (subst get_fingerprint_poll.simps, simp add: get_image_def)+

lemma enroll_capture_simps [simp]:
  "enroll_capture \<lparr>script = [], trace = t\<rparr> = (Blocked, \<lparr>script = [], trace = t\<rparr>)"
  "enroll_capture \<lparr>script = Raises # rs, trace = t\<rparr> =
     (Raised SensorError, \<lparr>script = rs, trace = t @ [Call GetImage Raises]\<rparr>)"
  "enroll_capture \<lparr>script = Returns i # rs, trace = t\<rparr> =
     (if i = OK then
        (Ret None, \<lparr>script = rs, trace = t @ [Call GetImage (Returns i), Print ''Image taken'']\<rparr>)
      else if i = NOFINGER then
        enroll_capture
          \<lparr>script = rs, trace = t @ [Call GetImage (Returns i), PrintNoNl ''.'']\<rparr>
      else if i = IMAGEFAIL then
        (Ret (Some False),
         \<lparr>script = rs, trace = t @ [Call GetImage (Returns i), Print ''Imaging error'']\<rparr>)
      else
        (Ret (Some False),
         \<lparr>script = rs, trace = t @ [Call GetImage (Returns i), Print ''Other error'']\<rparr>))"
  by (subst enroll_capture.simps, simp add: get_image_def)+

lemma enroll_removal_simps [simp]:
  "enroll_removal NOFINGER w = (Ret (), w)"
  "i \<noteq> NOFINGER \<Longrightarrow>
     enroll_removal i \<lparr>script = [], trace = t\<rparr> = (Blocked, \<lparr>script = [], trace = t\<rparr>)"
  "i \<noteq> NOFINGER \<Longrightarrow>
     enroll_removal i \<lparr>script = Raises # rs, trace = t\<rparr> =
       (Raised SensorError, \<lparr>script = rs, trace = t @ [Call GetImage Raises]\<rparr>)"
  "i \<noteq> NOFINGER \<Longrightarrow>
     enroll_removal i \<lparr>script = Returns i' # rs, trace = t\<rparr> =
       enroll_removal i' \<lparr>script = rs, trace = t @ [Call GetImage (Returns i')]\<rparr>"
  by (subst enroll_removal.simps, simp add: get_image_def)+

section \<open>The answers that keep a loop going\<close>

text \<open>Each loop runs through the answers that do not end it, one poll per answer.\<close>

lemma poll_forward [simp]:
  "OK \<notin> set sts \<Longrightarrow>
   get_fingerprint_poll \<lparr>script = map Returns sts @ rs, trace = t\<rparr> =
   get_fingerprint_poll \<lparr>script = rs, trace = t @ polls sts\<rparr>"
  by (induction sts arbitrary: t) (auto simp: polls_def)

lemma capture_forward [simp]:
  "enroll_capture \<lparr>script = replicate n (Returns NOFINGER) @ rs, trace = t\<rparr> =
   enroll_capture \<lparr>script = rs, trace = t @ dots n\<rparr>"
  by (induction n arbitrary: t) (auto simp: dots_def)

lemma removal_forward:
  "NOFINGER \<notin> set xs \<Longrightarrow> i \<noteq> NOFINGER \<Longrightarrow>
   enroll_removal i \<lparr>script = map Returns xs @ Returns NOFINGER # rs, trace = t\<rparr> =
   (Ret (), \<lparr>script = rs, trace = t @ polls xs @ [Call GetImage (Returns NOFINGER)]\<rparr>)"
  by (induction xs arbitrary: t i) (auto simp: polls_def)

lemma removal_blocked:
  "NOFINGER \<notin> set xs \<Longrightarrow> i \<noteq> NOFINGER \<Longrightarrow>
   enroll_removal i \<lparr>script = map Returns xs, trace = t\<rparr> =
   (Blocked, \<lparr>script = [], trace = t @ polls xs\<rparr>)"
  by (induction xs arbitrary: t i) (auto simp: polls_def)

section \<open>What a run adds to the trace\<close>

text \<open>Whatever the answers and however the run ends, a function only extends the trace, and only by events of its own kind.\<close>

lemma round_trip_frame:
  "round_trip c \<lparr>script = s, trace = t\<rparr> = (r, w') \<Longrightarrow>
   trace w' = t \<or> (\<exists>a. trace w' = t @ [Call c a])"
  by (cases s) (auto simp: round_trip_def split: response.splits)

lemma round_trip_ext:
  "round_trip c w = (r, w') \<Longrightarrow> trace w' = trace w \<or> (\<exists>a. trace w' = trace w @ [Call c a])"
  by (cases w) (auto dest: round_trip_frame)

lemma capture_frame:
  "enroll_capture \<lparr>script = s, trace = t\<rparr> = (r, w') \<Longrightarrow>
   \<exists>evs. trace w' = t @ evs \<and> list_all (pass_event k) evs \<and> r \<noteq> Ret (Some True)"
proof (induction s arbitrary: t)
  case Nil
  then show ?case by auto
next
  case (Cons a s)
  show ?case
  proof (cases "a = Returns NOFINGER")
    case True
    with Cons.prems have
      "enroll_capture
         \<lparr>script = s, trace = t @ [Call GetImage (Returns NOFINGER), PrintNoNl ''.'']\<rparr> =
       (r, w')"
      by simp
    from Cons.IH [OF this] show ?thesis by auto
  next
    case False
    with Cons.prems show ?thesis
      by (cases a) (auto split: if_splits)
  qed
qed

lemma capture_ext:
  "enroll_capture w = (r, w') \<Longrightarrow>
   \<exists>evs. trace w' = trace w @ evs \<and> list_all (pass_event k) evs \<and> r \<noteq> Ret (Some True)"
  by (cases w) (auto dest: capture_frame [where k = k])

lemma removal_frame:
  "enroll_removal i \<lparr>script = s, trace = t\<rparr> = (r, w') \<Longrightarrow>
   \<exists>evs. trace w' = t @ evs \<and> list_all (pass_event k) evs"
proof (induction s arbitrary: t i)
  case Nil
  then show ?case by (cases "i = NOFINGER") auto
next
  case (Cons a s)
  show ?case
  proof (cases "i = NOFINGER")
    case True
    with Cons.prems show ?thesis by auto
  next
    case False
    show ?thesis
    proof (cases a)
      case Raises
      with Cons.prems False show ?thesis by auto
    next
      case (Returns j)
      with Cons.prems False have
        "enroll_removal j \<lparr>script = s, trace = t @ [Call GetImage (Returns j)]\<rparr> = (r, w')"
        by simp
      from Cons.IH [OF this] show ?thesis by auto
    qed
  qed
qed

lemma removal_ext:
  "enroll_removal i w = (r, w') \<Longrightarrow>
   \<exists>evs. trace w' = trace w @ evs \<and> list_all (pass_event k) evs"
  by (cases w) (auto dest: removal_frame [where k = k])

lemma pass_ext:
  "enroll_pass k w = (r, w') \<Longrightarrow>
   \<exists>evs. trace w' = trace w @ PrintNoNl (prompt k) # evs \<and> list_all (pass_event k) evs \<and>
         r \<noteq> Ret (Some True)"
  unfolding enroll_pass_def bind_def Let_def image_2_tz_def prompt_def
  by (auto split: prod.splits outcome.splits option.splits if_splits
      dest!: capture_ext [where k = k] removal_ext [where k = k] round_trip_ext
      simp: emit_def)




lemma pass_event_call:
  "list_all (pass_event k) evs \<Longrightarrow> Call c a \<in> set evs \<Longrightarrow> c = GetImage \<or> c = Image2Tz k"
  by (auto simp: list_all_iff)



lemma first_pass_events_pass: "list_all (pass_event 1) (first_pass_events n xs)"
  by (auto simp: first_pass_events_def dots_def polls_def list_all_iff)

lemma second_pass_events_pass: "list_all (pass_event 2) (second_pass_events n)"
  by (auto simp: second_pass_events_def dots_def list_all_iff)

lemma first_pass_calls:
  "Call c a \<in> set (first_pass_events n xs) \<Longrightarrow> c = GetImage \<or> c = Image2Tz 1"
  using first_pass_events_pass [of n xs] by (rule pass_event_call)

lemma second_pass_calls:
  "Call c a \<in> set (second_pass_events n) \<Longrightarrow> c = GetImage \<or> c = Image2Tz 2"
  using second_pass_events_pass [of n] by (rule pass_event_call)

section \<open>Reading a finished loop back\<close>

text \<open>A loop that has run to its end tells which answers it was given.\<close>

lemma round_trip_inv:
  "round_trip c \<lparr>script = s, trace = t\<rparr> = (Ret i, w') \<Longrightarrow>
   s = Returns i # script w' \<and> trace w' = t @ [Call c (Returns i)]"
  by (cases s) (auto simp: round_trip_def split: response.splits)

lemma round_trip_inv_w:
  "round_trip c w = (Ret i, w') \<Longrightarrow>
   script w = Returns i # script w' \<and> trace w' = trace w @ [Call c (Returns i)]"
  by (cases w) (auto dest: round_trip_inv)

lemma capture_inv:
  "enroll_capture \<lparr>script = s, trace = t\<rparr> = (Ret None, w') \<Longrightarrow>
   \<exists>n. s = map Returns (replicate n NOFINGER) @ Returns OK # script w' \<and>
       trace w' = t @ dots n @ [Call GetImage (Returns OK), Print ''Image taken'']"
proof (induction s arbitrary: t)
  case Nil
  then show ?case by simp
next
  case (Cons a s)
  show ?case
  proof (cases a)
    case Raises
    with Cons.prems show ?thesis by simp
  next
    case (Returns i)
    consider "i = OK" | "i = NOFINGER" | "i \<noteq> OK" "i \<noteq> NOFINGER" by blast
    then show ?thesis
    proof cases
      case 1
      with Cons.prems Returns show ?thesis
        by (auto intro!: exI[of _ 0] simp: dots_def)
    next
      case 2
      with Cons.prems Returns have
        "enroll_capture
           \<lparr>script = s, trace = t @ [Call GetImage (Returns NOFINGER), PrintNoNl ''.'']\<rparr> =
         (Ret None, w')"
        by simp
      from Cons.IH [OF this] obtain n where
        "s = map Returns (replicate n NOFINGER) @ Returns OK # script w'"
        "trace w' = (t @ [Call GetImage (Returns NOFINGER), PrintNoNl ''.'']) @ dots n @
           [Call GetImage (Returns OK), Print ''Image taken'']"
        by blast
      then show ?thesis using 2 Returns
        by (intro exI[of _ "Suc n"]) (simp add: dots_def)
    next
      case 3
      with Cons.prems Returns show ?thesis by (auto split: if_splits)
    qed
  qed
qed

lemma capture_inv_w:
  "enroll_capture w = (Ret None, w') \<Longrightarrow>
   \<exists>n. script w = map Returns (replicate n NOFINGER) @ Returns OK # script w' \<and>
       trace w' = trace w @ dots n @ [Call GetImage (Returns OK), Print ''Image taken'']"
  by (cases w) (auto dest: capture_inv)

lemma removal_inv:
  "enroll_removal i \<lparr>script = s, trace = t\<rparr> = (Ret u, w') \<Longrightarrow> i \<noteq> NOFINGER \<Longrightarrow>
   \<exists>xs. NOFINGER \<notin> set xs \<and> s = map Returns xs @ Returns NOFINGER # script w' \<and>
        trace w' = t @ polls xs @ [Call GetImage (Returns NOFINGER)]"
proof (induction s arbitrary: t i)
  case Nil
  then show ?case by simp
next
  case (Cons a s)
  show ?case
  proof (cases a)
    case Raises
    with Cons.prems show ?thesis by simp
  next
    case (Returns j)
    from Cons.prems Returns have step:
      "enroll_removal j \<lparr>script = s, trace = t @ [Call GetImage (Returns j)]\<rparr> = (Ret u, w')"
      by simp
    show ?thesis
    proof (cases "j = NOFINGER")
      case True
      with step Returns show ?thesis
        by (auto intro!: exI[of _ "[]"] simp: polls_def)
    next
      case False
      from Cons.IH [OF step False] obtain xs where
        "NOFINGER \<notin> set xs" "s = map Returns xs @ Returns NOFINGER # script w'"
        "trace w' = (t @ [Call GetImage (Returns j)]) @ polls xs @
           [Call GetImage (Returns NOFINGER)]"
        by blast
      then show ?thesis using False Returns
        by (intro exI[of _ "j # xs"]) (simp add: polls_def)
    qed
  qed
qed

lemma removal_inv_w:
  "enroll_removal i w = (Ret u, w') \<Longrightarrow> i \<noteq> NOFINGER \<Longrightarrow>
   \<exists>xs. NOFINGER \<notin> set xs \<and> script w = map Returns xs @ Returns NOFINGER # script w' \<and>
        trace w' = trace w @ polls xs @ [Call GetImage (Returns NOFINGER)]"
  by (cases w) (auto dest: removal_inv)

section \<open>The two passes\<close>

text \<open>A pass on the answers that carry it to its end, on the answers that fail it, and read back from its end.\<close>

lemma pass1_forward:
  "NOFINGER \<notin> set xs \<Longrightarrow>
   enroll_pass 1 \<lparr>script = map Returns (first_pass_answers n xs) @ rs, trace = t\<rparr> =
   (Ret None, \<lparr>script = rs, trace = t @ first_pass_events n xs\<rparr>)"
  by (simp add: enroll_pass_def first_pass_answers_def first_pass_events_def image_2_tz_def
      removal_forward)

lemma pass2_forward:
  "enroll_pass 2 \<lparr>script = map Returns (second_pass_answers n) @ rs, trace = t\<rparr> =
   (Ret None, \<lparr>script = rs, trace = t @ second_pass_events n\<rparr>)"
  by (simp add: enroll_pass_def second_pass_answers_def second_pass_events_def image_2_tz_def)

lemma pass1_capture_fails:
  "i \<noteq> OK \<Longrightarrow> i \<noteq> NOFINGER \<Longrightarrow>
   enroll_pass k \<lparr>script = replicate n (Returns NOFINGER) @ Returns i # rest, trace = t\<rparr> =
   (Ret (Some False),
    \<lparr>script = rest,
       trace = t @ [PrintNoNl (prompt k)] @ dots n @
         [Call GetImage (Returns i),
          Print (if i = IMAGEFAIL then ''Imaging error'' else ''Other error'')]\<rparr>)"
  by (simp add: enroll_pass_def prompt_def)

lemma pass_capture_blocked:
  "enroll_pass k \<lparr>script = replicate n (Returns NOFINGER), trace = t\<rparr> =
   (Blocked, \<lparr>script = [], trace = t @ [PrintNoNl (prompt k)] @ dots n\<rparr>)"
  using capture_forward [of n "[]"] by (simp add: enroll_pass_def prompt_def)

lemma pass_extract_fails:
  "i \<noteq> OK \<Longrightarrow>
   enroll_pass k
     \<lparr>script = replicate n (Returns NOFINGER) @ Returns OK # Returns i # rest, trace = t\<rparr> =
   (Ret (Some False),
    \<lparr>script = rest,
       trace = t @ [PrintNoNl (prompt k)] @ dots n @
         [Call GetImage (Returns OK), Print ''Image taken'', PrintNoNl ''Templating...'',
          Call (Image2Tz k) (Returns i),
          Print (if i = IMAGEMESS then ''Image too messy''
                 else if i = FEATUREFAIL then ''Could not identify features''
                 else if i = INVALIDIMAGE then ''Image invalid''
                 else ''Other error'')]\<rparr>)"
  by (simp add: enroll_pass_def prompt_def image_2_tz_def)

lemma pass1_removal_blocked:
  "NOFINGER \<notin> set xs \<Longrightarrow>
   enroll_pass 1
     \<lparr>script = replicate n (Returns NOFINGER) @ Returns OK # Returns OK # map Returns xs,
        trace = t\<rparr> =
   (Blocked,
    \<lparr>script = [],
       trace = t @ [PrintNoNl ''Place finger on sensor...''] @ dots n @
         [Call GetImage (Returns OK), Print ''Image taken'', PrintNoNl ''Templating...'',
          Call (Image2Tz 1) (Returns OK), Print ''Templated'', Print ''Remove finger'',
          Sleep 1] @ polls xs\<rparr>)"
  by (simp add: enroll_pass_def image_2_tz_def removal_blocked)

lemma pass1_inv:
  assumes "enroll_pass 1 w = (Ret None, w')"
  shows "\<exists>n xs. NOFINGER \<notin> set xs \<and>
           script w = map Returns (first_pass_answers n xs) @ script w' \<and>
           trace w' = trace w @ first_pass_events n xs"
proof -
  from assms obtain w1 w2 w3 where
    c: "enroll_capture (emit (PrintNoNl ''Place finger on sensor...'') w) = (Ret None, w1)" and
    x: "round_trip (Image2Tz 1) (emit (PrintNoNl ''Templating...'') w1) = (Ret OK, w2)" and
    r: "enroll_removal OK
          (emit (Sleep 1) (emit (Print ''Remove finger'') (emit (Print ''Templated'') w2))) =
        (Ret (), w')"
    by (auto simp: enroll_pass_def bind_def Let_def image_2_tz_def
        split: prod.splits outcome.splits option.splits if_splits)
  from capture_inv_w [OF c] obtain n where
    n: "script w = map Returns (replicate n NOFINGER) @ Returns OK # script w1"
       "trace w1 = trace w @ [PrintNoNl ''Place finger on sensor...''] @ dots n @
          [Call GetImage (Returns OK), Print ''Image taken'']"
    by (auto simp: emit_def)
  from round_trip_inv_w [OF x] have
    x': "script w1 = Returns OK # script w2"
        "trace w2 = trace w1 @ [PrintNoNl ''Templating...'', Call (Image2Tz 1) (Returns OK)]"
    by (auto simp: emit_def)
  from removal_inv_w [OF r] obtain xs where
    xs: "NOFINGER \<notin> set xs" "script w2 = map Returns xs @ Returns NOFINGER # script w'"
        "trace w' = trace w2 @ [Print ''Templated'', Print ''Remove finger'', Sleep 1] @
           polls xs @ [Call GetImage (Returns NOFINGER)]"
    by (auto simp: emit_def)
  from n x' xs show ?thesis
    by (intro exI [of _ n] exI [of _ xs])
       (simp add: first_pass_answers_def first_pass_events_def)
qed

lemma pass2_inv:
  assumes "enroll_pass 2 w = (Ret None, w')"
  shows "\<exists>n. script w = map Returns (second_pass_answers n) @ script w' \<and>
           trace w' = trace w @ second_pass_events n"
proof -
  from assms obtain w1 w2 where
    c: "enroll_capture (emit (PrintNoNl ''Place same finger again...'') w) = (Ret None, w1)" and
    x: "round_trip (Image2Tz 2) (emit (PrintNoNl ''Templating...'') w1) = (Ret OK, w2)" and
    e: "w' = emit (Print ''Templated'') w2"
    by (auto simp: enroll_pass_def bind_def Let_def image_2_tz_def
        split: prod.splits outcome.splits option.splits if_splits)
  from capture_inv_w [OF c] obtain n where
    n: "script w = map Returns (replicate n NOFINGER) @ Returns OK # script w1"
       "trace w1 = trace w @ [PrintNoNl ''Place same finger again...''] @ dots n @
          [Call GetImage (Returns OK), Print ''Image taken'']"
    by (auto simp: emit_def)
  from round_trip_inv_w [OF x] have
    x': "script w1 = Returns OK # script w2"
        "trace w2 = trace w1 @ [PrintNoNl ''Templating...'', Call (Image2Tz 2) (Returns OK)]"
    by (auto simp: emit_def)
  from n x' e show ?thesis
    by (intro exI [of _ n])
       (simp add: second_pass_answers_def second_pass_events_def emit_def)
qed

section \<open>Every run of \<^verbatim>\<open>enroll_finger\<close>\<close>

text \<open>A run of \<^verbatim>\<open>enroll_finger\<close> ends in pass 1, ends in pass 2, or reaches the model; there it ends in one of six ways.\<close>

lemma model_and_store_simps:
  "enroll_model_and_store location \<lparr>script = [], trace = t\<rparr> =
     (Blocked, \<lparr>script = [], trace = t @ [PrintNoNl ''Creating model...'']\<rparr>)"
  "enroll_model_and_store location \<lparr>script = Raises # rs, trace = t\<rparr> =
     (Raised SensorError,
      \<lparr>script = rs, trace = t @ [PrintNoNl ''Creating model...'', Call CreateModel Raises]\<rparr>)"
  "i \<noteq> OK \<Longrightarrow>
   enroll_model_and_store location \<lparr>script = Returns i # rs, trace = t\<rparr> =
     (Ret False,
      \<lparr>script = rs,
         trace = t @ [PrintNoNl ''Creating model...'', Call CreateModel (Returns i),
           Print (if i = ENROLLMISMATCH then ''Prints did not match'' else ''Other error'')]\<rparr>)"
  "enroll_model_and_store location \<lparr>script = [Returns OK], trace = t\<rparr> =
     (Blocked,
      \<lparr>script = [],
         trace = t @ [PrintNoNl ''Creating model...'', Call CreateModel (Returns OK),
           Print ''Created'', PrintNoNl (''Storing model #'' @ str_int location @ ''...'')]\<rparr>)"
  "enroll_model_and_store location \<lparr>script = Returns OK # Raises # rs, trace = t\<rparr> =
     (Raised SensorError,
      \<lparr>script = rs,
         trace = t @ [PrintNoNl ''Creating model...'', Call CreateModel (Returns OK),
           Print ''Created'', PrintNoNl (''Storing model #'' @ str_int location @ ''...''),
           Call (StoreModel location) Raises]\<rparr>)"
  "enroll_model_and_store location \<lparr>script = Returns OK # Returns j # rs, trace = t\<rparr> =
     (Ret (j = OK),
      \<lparr>script = rs,
         trace = t @ [PrintNoNl ''Creating model...'', Call CreateModel (Returns OK),
           Print ''Created'', PrintNoNl (''Storing model #'' @ str_int location @ ''...''),
           Call (StoreModel location) (Returns j),
           Print (if j = OK then ''Stored''
                  else if j = BADLOCATION then ''Bad storage location''
                  else if j = FLASHERR then ''Flash storage error''
                  else ''Other error'')]\<rparr>)"
  by (simp_all add: enroll_model_and_store_def create_model_def store_model_def)

lemma model_and_store_cases
  [consumes 1, case_names create_blocked create_raised create_rejected store_blocked
     store_raised store_answered]:
  assumes "enroll_model_and_store location w = (r, w')"
  obtains
    (create_blocked)
      "script w = []" "r = Blocked"
      "w' = \<lparr>script = [], trace = trace w @ [PrintNoNl ''Creating model...'']\<rparr>"
  | (create_raised) rest where
      "script w = Raises # rest" "r = Raised SensorError"
      "w' = \<lparr>script = rest,
              trace = trace w @ [PrintNoNl ''Creating model...'', Call CreateModel Raises]\<rparr>"
  | (create_rejected) i rest where
      "script w = Returns i # rest" "i \<noteq> OK" "r = Ret False"
      "w' = \<lparr>script = rest,
              trace = trace w @ [PrintNoNl ''Creating model...'', Call CreateModel (Returns i),
                Print (if i = ENROLLMISMATCH then ''Prints did not match''
                       else ''Other error'')]\<rparr>"
  | (store_blocked)
      "script w = [Returns OK]" "r = Blocked"
      "w' = \<lparr>script = [],
              trace = trace w @ [PrintNoNl ''Creating model...'', Call CreateModel (Returns OK),
                Print ''Created'',
                PrintNoNl (''Storing model #'' @ str_int location @ ''...'')]\<rparr>"
  | (store_raised) rest where
      "script w = Returns OK # Raises # rest" "r = Raised SensorError"
      "w' = \<lparr>script = rest,
              trace = trace w @ [PrintNoNl ''Creating model...'', Call CreateModel (Returns OK),
                Print ''Created'',
                PrintNoNl (''Storing model #'' @ str_int location @ ''...''),
                Call (StoreModel location) Raises]\<rparr>"
  | (store_answered) j rest where
      "script w = Returns OK # Returns j # rest" "r = Ret (j = OK)"
      "w' = \<lparr>script = rest,
              trace = trace w @ [PrintNoNl ''Creating model...'', Call CreateModel (Returns OK),
                Print ''Created'',
                PrintNoNl (''Storing model #'' @ str_int location @ ''...''),
                Call (StoreModel location) (Returns j),
                Print (if j = OK then ''Stored''
                       else if j = BADLOCATION then ''Bad storage location''
                       else if j = FLASHERR then ''Flash storage error''
                       else ''Other error'')]\<rparr>"
proof (cases w)
  case (fields s t)
  show thesis
  proof (cases s)
    case Nil
    with assms fields show thesis
      by (intro create_blocked) (auto simp: model_and_store_simps)
  next
    case (Cons a s1)
    show thesis
    proof (cases a)
      case Raises
      with assms fields Cons show thesis
        by (intro create_raised [of s1]) (auto simp: model_and_store_simps)
    next
      case (Returns i)
      show thesis
      proof (cases "i = OK")
        case False
        with assms fields Cons Returns show thesis
          by (intro create_rejected [of i s1]) (auto simp: model_and_store_simps)
      next
        case True
        show thesis
        proof (cases s1)
          case Nil
          with assms fields Cons Returns True show thesis
            by (intro store_blocked) (auto simp: model_and_store_simps)
        next
          case c2: (Cons b s2)
          show thesis
          proof (cases b)
            case Raises
            with assms fields Cons Returns True c2 show thesis
              by (intro store_raised [of s2]) (auto simp: model_and_store_simps)
          next
            case r2: (Returns j)
            with assms fields Cons Returns True c2 show thesis
              by (intro store_answered [of j s2]) (auto simp: model_and_store_simps)
          qed
        qed
      qed
    qed
  qed
qed

lemma enroll_finger_cases [consumes 1, case_names first second model]:
  assumes run: "enroll_finger location w = (r, w')"
  obtains
    (first) evs where
      "trace w' = trace w @ PrintNoNl ''Place finger on sensor...'' # evs"
      "list_all (pass_event 1) evs" "r \<noteq> Ret True"
  | (second) n xs evs where
      "NOFINGER \<notin> set xs"
      "trace w' = trace w @ first_pass_events n xs @
         PrintNoNl ''Place same finger again...'' # evs"
      "list_all (pass_event 2) evs" "r \<noteq> Ret True"
  | (model) n xs m w2 where
      "NOFINGER \<notin> set xs"
      "script w = map Returns (first_pass_answers n xs @ second_pass_answers m) @ script w2"
      "trace w2 = trace w @ first_pass_events n xs @ second_pass_events m"
      "enroll_model_and_store location w2 = (r, w')"
proof -
  obtain r1 w1 where p1: "enroll_pass 1 w = (r1, w1)"
    by (cases "enroll_pass 1 w") auto
  from pass_ext [OF p1] obtain e1 where e1:
    "trace w1 = trace w @ PrintNoNl ''Place finger on sensor...'' # e1"
    "list_all (pass_event 1) e1" "r1 \<noteq> Ret (Some True)"
    by (auto simp: prompt_def)
  show thesis
  proof (cases "r1 = Ret None")
    case False
    with run p1 e1 have "w' = w1" "r \<noteq> Ret True"
      by (auto simp: enroll_finger_def bind_def split: outcome.splits option.splits)
    with e1 show thesis by (intro first) auto
  next
    case True
    from pass1_inv [OF p1 [unfolded True]] obtain n xs where nxs:
      "NOFINGER \<notin> set xs" "script w = map Returns (first_pass_answers n xs) @ script w1"
      "trace w1 = trace w @ first_pass_events n xs"
      by blast
    obtain r2 w2 where p2: "enroll_pass 2 w1 = (r2, w2)"
      by (cases "enroll_pass 2 w1") auto
    from pass_ext [OF p2] obtain e2 where e2:
      "trace w2 = trace w1 @ PrintNoNl ''Place same finger again...'' # e2"
      "list_all (pass_event 2) e2" "r2 \<noteq> Ret (Some True)"
      by (auto simp: prompt_def)
    show thesis
    proof (cases "r2 = Ret None")
      case False
      with run p1 p2 True e2 have "w' = w2" "r \<noteq> Ret True"
        by (auto simp: enroll_finger_def bind_def split: outcome.splits option.splits)
      with e2 nxs show thesis by (intro second [of xs n e2]) auto
    next
      case r2: True
      from pass2_inv [OF p2 [unfolded r2]] obtain m where m:
        "script w1 = map Returns (second_pass_answers m) @ script w2"
        "trace w2 = trace w1 @ second_pass_events m"
        by blast
      from run p1 p2 True r2 have "enroll_model_and_store location w2 = (r, w')"
        by (simp add: enroll_finger_def)
      with nxs m show thesis by (intro model [of xs n m w2]) auto
    qed
  qed
qed


lemmas enroll_forward =
  enroll_finger_def pass1_forward pass2_forward pass1_capture_fails pass_capture_blocked
  pass_extract_fails pass1_removal_blocked prompt_def

lemma enroll_success:
  "NOFINGER \<notin> set xs \<Longrightarrow>
   enroll_finger location
     \<lparr>script = map Returns (first_pass_answers n xs @ second_pass_answers m @ [OK, OK]) @ rest,
        trace = t\<rparr> =
   (Ret True,
    \<lparr>script = rest,
       trace = t @ first_pass_events n xs @ second_pass_events m @
         [PrintNoNl ''Creating model...'', Call CreateModel (Returns OK), Print ''Created'',
          PrintNoNl (''Storing model #'' @ str_int location @ ''...''),
          Call (StoreModel location) (Returns OK), Print ''Stored'']\<rparr>)"
  by (simp add: enroll_finger_def pass1_forward pass2_forward model_and_store_simps)

section \<open>Identification polls until \<^verbatim>\<open>OK\<close>\<close>

text \<open>
  C1, as stated: when \<^verbatim>\<open>get_image\<close> returns \<^verbatim>\<open>IMAGEFAIL\<close>, identification stops polling
  and returns that error. It does not: on the answers \<^verbatim>\<open>IMAGEFAIL\<close>, \<^verbatim>\<open>OK\<close>, \<^verbatim>\<open>OK\<close>,
  \<^verbatim>\<open>OK\<close> the loop of lines 58-59 polls a second time and \<^verbatim>\<open>get_fingerprint\<close> returns
  \<^verbatim>\<open>True\<close>.
\<close>

theorem get_fingerprint_polls_past_imagefail:
  "get_fingerprint
     \<lparr>script = [Returns IMAGEFAIL, Returns OK, Returns OK, Returns OK], trace = []\<rparr> =
   (Ret True,
    \<lparr>script = [],
       trace = [Print ''Waiting for image...'', Call GetImage (Returns IMAGEFAIL),
         Call GetImage (Returns OK), Print ''Templating...'', Call (Image2Tz 1) (Returns OK),
         Print ''Searching...'', Call FingerSearch (Returns OK)]\<rparr>)"
  by (simp add: get_fingerprint_def image_2_tz_def finger_search_def)

text \<open>
  C1, amended: the polling phase of identification ends only with \<^verbatim>\<open>OK\<close>. Every other
  status (the list \<open>sts\<close>), \<^verbatim>\<open>IMAGEFAIL\<close> included, is polled past; after the \<^verbatim>\<open>OK\<close> the
  features are extracted into slot 1, and the result is a boolean: \<^verbatim>\<open>True\<close> when the
  extraction and the search both answer \<^verbatim>\<open>OK\<close>, \<^verbatim>\<open>False\<close> otherwise (the search is not
  called after a failed extraction).
\<close>

theorem get_fingerprint_polls_until_ok:
  assumes "OK \<notin> set sts"
  shows "get_fingerprint
           \<lparr>script = map Returns sts @ Returns OK # Returns a # Returns b # rest, trace = t\<rparr> =
         (Ret (a = OK \<and> b = OK),
          \<lparr>script = (if a = OK then rest else Returns b # rest),
             trace = t @ [Print ''Waiting for image...''] @ polls sts @
               [Call GetImage (Returns OK), Print ''Templating...'',
                Call (Image2Tz 1) (Returns a)] @
               (if a = OK then [Print ''Searching...'', Call FingerSearch (Returns b)]
                else [])\<rparr>)"
  using assms by (simp add: get_fingerprint_def image_2_tz_def finger_search_def)

text \<open>
  C1, the amended statement on the answers \<^verbatim>\<open>IMAGEFAIL\<close>, \<^verbatim>\<open>NOFINGER\<close>, \<^verbatim>\<open>OK\<close>, \<^verbatim>\<open>OK\<close>
  and a status the program does not name.
\<close>

theorem get_fingerprint_polls_until_ok_witness:
  "OK \<notin> set [IMAGEFAIL, NOFINGER] \<and>
   get_fingerprint
     \<lparr>script = [Returns IMAGEFAIL, Returns NOFINGER, Returns OK, Returns OK,
                  Returns (OTHER 9)], trace = []\<rparr> =
   (Ret False,
    \<lparr>script = [],
       trace = [Print ''Waiting for image...'', Call GetImage (Returns IMAGEFAIL),
         Call GetImage (Returns NOFINGER), Call GetImage (Returns OK), Print ''Templating...'',
         Call (Image2Tz 1) (Returns OK), Print ''Searching...'',
         Call FingerSearch (Returns (OTHER 9))]\<rparr>)"
  using get_fingerprint_polls_until_ok [of "[IMAGEFAIL, NOFINGER]" OK "OTHER 9" "[]" "[]"]
  by (simp add: polls_def)

section \<open>A mismatch is never stored\<close>

text \<open>
  C2: in every run of \<^verbatim>\<open>enroll_finger\<close> in which \<^verbatim>\<open>create_model\<close> answers
  \<^verbatim>\<open>ENROLLMISMATCH\<close>, the enrollment fails (it returns \<^verbatim>\<open>False\<close>) and \<^verbatim>\<open>store_model\<close> is
  not called. The run is what the trace gained, \<open>drop (length (trace w)) (trace w')\<close>;
  it may have started after any history and been given any answers.
\<close>

theorem mismatch_never_stores:
  assumes run: "enroll_finger location w = (r, w')"
    and mismatch:
      "Call CreateModel (Returns ENROLLMISMATCH) \<in> set (drop (length (trace w)) (trace w'))"
  shows "r = Ret False \<and>
         (\<forall>loc a. Call (StoreModel loc) a \<notin> set (drop (length (trace w)) (trace w')))"
  using run
proof (cases rule: enroll_finger_cases)
  case (first evs)
  with mismatch show ?thesis by (auto dest: pass_event_call)
next
  case (second n xs evs)
  with mismatch show ?thesis by (auto dest: pass_event_call first_pass_calls)
next
  case (model n xs m w2)
  from model(4) show ?thesis
  proof (cases rule: model_and_store_cases)
    case create_blocked
    with model mismatch show ?thesis by (auto dest: first_pass_calls second_pass_calls)
  next
    case (create_raised rest)
    with model mismatch show ?thesis by (auto dest: first_pass_calls second_pass_calls)
  next
    case (create_rejected i rest)
    with model mismatch show ?thesis by (auto dest: first_pass_calls second_pass_calls)
  next
    case store_blocked
    with model mismatch show ?thesis by (auto dest: first_pass_calls second_pass_calls)
  next
    case (store_raised rest)
    with model mismatch show ?thesis by (auto dest: first_pass_calls second_pass_calls)
  next
    case (store_answered j rest)
    with model mismatch show ?thesis by (auto dest: first_pass_calls second_pass_calls)
  qed
qed

text \<open>
  C2 on a run with a finger at once in both passes and a mismatch at \<^verbatim>\<open>create_model\<close>.
\<close>

theorem mismatch_never_stores_witness:
  "enroll_finger 5 \<lparr>script = map Returns [OK, OK, NOFINGER, OK, OK, ENROLLMISMATCH], trace = []\<rparr> =
     (Ret False,
      \<lparr>script = [],
          trace = [PrintNoNl ''Place finger on sensor...'', Call GetImage (Returns OK),
             Print ''Image taken'', PrintNoNl ''Templating...'',
             Call (Image2Tz 1) (Returns OK), Print ''Templated'', Print ''Remove finger'',
             Sleep 1, Call GetImage (Returns NOFINGER),
             PrintNoNl ''Place same finger again...'', Call GetImage (Returns OK),
             Print ''Image taken'', PrintNoNl ''Templating...'',
             Call (Image2Tz 2) (Returns OK), Print ''Templated'',
             PrintNoNl ''Creating model...'', Call CreateModel (Returns ENROLLMISMATCH),
             Print ''Prints did not match'']\<rparr>) \<and>
   Call CreateModel (Returns ENROLLMISMATCH) \<in>
     set (trace (snd (enroll_finger 5
       \<lparr>script = map Returns [OK, OK, NOFINGER, OK, OK, ENROLLMISMATCH], trace = []\<rparr>))) \<and>
   (\<forall>loc a. Call (StoreModel loc) a \<notin>
     set (trace (snd (enroll_finger 5
       \<lparr>script = map Returns [OK, OK, NOFINGER, OK, OK, ENROLLMISMATCH], trace = []\<rparr>))))"
proof -
  let ?w = "\<lparr>script = map Returns [OK, OK, NOFINGER, OK, OK, ENROLLMISMATCH], trace = []\<rparr>"
  let ?w' = "\<lparr>script = [],
              trace = [PrintNoNl ''Place finger on sensor...'', Call GetImage (Returns OK),
                 Print ''Image taken'', PrintNoNl ''Templating...'',
                 Call (Image2Tz 1) (Returns OK), Print ''Templated'', Print ''Remove finger'',
                 Sleep 1, Call GetImage (Returns NOFINGER),
                 PrintNoNl ''Place same finger again...'', Call GetImage (Returns OK),
                 Print ''Image taken'', PrintNoNl ''Templating...'',
                 Call (Image2Tz 2) (Returns OK), Print ''Templated'',
                 PrintNoNl ''Creating model...'', Call CreateModel (Returns ENROLLMISMATCH),
                 Print ''Prints did not match'']\<rparr>"
  have run: "enroll_finger 5 ?w = (Ret False, ?w')"
    by (simp add: enroll_finger_def enroll_pass_def enroll_model_and_store_def primitive_defs)
  have mismatch:
    "Call CreateModel (Returns ENROLLMISMATCH) \<in> set (drop (length (trace ?w)) (trace ?w'))"
    by simp
  from mismatch_never_stores [OF run mismatch] run mismatch show ?thesis
    by simp
qed

section \<open>Slot ids outside 1..127\<close>

text \<open>
  C3, as stated: for a slot id outside 1..127, enroll and delete are rejected with
  ProtocolViolation before any frame is sent. Nothing is sent, but nothing is rejected
  either: at the ids 0 and 128 the menu branches return normally, and all they did is
  write the indicator line and prompt for the id. (The \<^verbatim>\<open>read_templates\<close> call at the top
  of the menu loop, line 160, comes before the command is read and is no part of the
  branches.)
\<close>

theorem out_of_range_slot_returns_normally:
  "main_enroll (Some 0) \<lparr>script = [Returns OK], trace = []\<rparr> =
     (Ret (),
      \<lparr>script = [Returns OK], trace = [Led 1, Input ''Enter ID # (1-127): '', Led 0]\<rparr>) \<and>
   main_delete (Some 128) \<lparr>script = [Returns OK], trace = []\<rparr> =
     (Ret (),
      \<lparr>script = [Returns OK], trace = [Input ''Enter ID # to delete (1-127): '']\<rparr>)"
  by (simp add: main_enroll_def main_delete_def)

text \<open>
  C3, amended: for every slot id outside 1..127 the enroll and delete branches skip the
  operation before any frame is sent to the sensor: no round trip is made (the script is
  untouched and the trace gains no call), no message is printed, and the branch returns
  normally, without an error.
\<close>

theorem out_of_range_slot_skipped:
  assumes "location \<le> 0 \<or> 128 \<le> location"
  shows "main_enroll (Some location) w =
           (Ret (), w\<lparr>trace := trace w @ [Led 1, Input ''Enter ID # (1-127): '', Led 0]\<rparr>) \<and>
         main_delete (Some location) w =
           (Ret (), w\<lparr>trace := trace w @ [Input ''Enter ID # to delete (1-127): '']\<rparr>)"
  using assms by (auto simp: main_enroll_def main_delete_def emit_def)

text \<open>
  C3, the amended statement at the id 200, with an answer waiting in the script.
\<close>

theorem out_of_range_slot_skipped_witness:
  "((200::int) \<le> 0 \<or> (128::int) \<le> 200) \<and>
   main_enroll (Some 200) \<lparr>script = [Returns OK], trace = []\<rparr> =
     (Ret (),
      \<lparr>script = [Returns OK], trace = [Led 1, Input ''Enter ID # (1-127): '', Led 0]\<rparr>) \<and>
   main_delete (Some 200) \<lparr>script = [Returns OK], trace = []\<rparr> =
     (Ret (),
      \<lparr>script = [Returns OK], trace = [Input ''Enter ID # to delete (1-127): '']\<rparr>)"
  using out_of_range_slot_skipped [of 200 "\<lparr>script = [Returns OK], trace = []\<rparr>"]
  by simp

section \<open>Pass 2 waits for the finger to be lifted\<close>



section \<open>What ends a pass\<close>

text \<open>
  C5: in pass 1 and in pass 2 the capture loop polls again on every \<^verbatim>\<open>NOFINGER\<close> (\<open>n\<close>
  of them, each with its dot), and \<^verbatim>\<open>IMAGEFAIL\<close> then ends the whole enrollment with
  \<^verbatim>\<open>False\<close>; after a capture answered \<^verbatim>\<open>OK\<close>, any status other than \<^verbatim>\<open>OK\<close> from
  \<^verbatim>\<open>image_2_tz\<close> ends the enrollment with \<^verbatim>\<open>False\<close>. No answer is used after the one
  that ends the run.
\<close>

theorem enroll_pass_failures:
  "enroll_finger location
     \<lparr>script = map Returns (replicate n NOFINGER @ [IMAGEFAIL]) @ rest, trace = t\<rparr> =
   (Ret False,
    \<lparr>script = rest,
       trace = t @ [PrintNoNl ''Place finger on sensor...''] @ dots n @
         [Call GetImage (Returns IMAGEFAIL), Print ''Imaging error'']\<rparr>) \<and>
   (i \<noteq> OK \<longrightarrow>
    enroll_finger location
      \<lparr>script = map Returns (replicate n NOFINGER @ [OK, i]) @ rest, trace = t\<rparr> =
    (Ret False,
     \<lparr>script = rest,
        trace = t @ [PrintNoNl ''Place finger on sensor...''] @ dots n @
          [Call GetImage (Returns OK), Print ''Image taken'', PrintNoNl ''Templating...'',
           Call (Image2Tz 1) (Returns i),
           Print (if i = IMAGEMESS then ''Image too messy''
                  else if i = FEATUREFAIL then ''Could not identify features''
                  else if i = INVALIDIMAGE then ''Image invalid''
                  else ''Other error'')]\<rparr>)) \<and>
   (NOFINGER \<notin> set xs \<longrightarrow>
    enroll_finger location
      \<lparr>script = map Returns (first_pass_answers m xs @ replicate n NOFINGER @ [IMAGEFAIL]) @
                  rest,
         trace = t\<rparr> =
    (Ret False,
     \<lparr>script = rest,
        trace = t @ first_pass_events m xs @ [PrintNoNl ''Place same finger again...''] @
          dots n @ [Call GetImage (Returns IMAGEFAIL), Print ''Imaging error'']\<rparr>)) \<and>
   (NOFINGER \<notin> set xs \<and> i \<noteq> OK \<longrightarrow>
    enroll_finger location
      \<lparr>script = map Returns (first_pass_answers m xs @ replicate n NOFINGER @ [OK, i]) @ rest,
         trace = t\<rparr> =
    (Ret False,
     \<lparr>script = rest,
        trace = t @ first_pass_events m xs @ [PrintNoNl ''Place same finger again...''] @
          dots n @
          [Call GetImage (Returns OK), Print ''Image taken'', PrintNoNl ''Templating...'',
           Call (Image2Tz 2) (Returns i),
           Print (if i = IMAGEMESS then ''Image too messy''
                  else if i = FEATUREFAIL then ''Could not identify features''
                  else if i = INVALIDIMAGE then ''Image invalid''
                  else ''Other error'')]\<rparr>))"
  by (simp add: enroll_forward)

text \<open>
  C5 with two polls without a finger before the failure, in either pass.
\<close>

theorem enroll_pass_failures_witness:
  "IMAGEMESS \<noteq> OK \<and> NOFINGER \<notin> set [IMAGEFAIL] \<and>
   enroll_finger 5 \<lparr>script = map Returns [NOFINGER, NOFINGER, IMAGEFAIL], trace = []\<rparr> =
     (Ret False,
      \<lparr>script = [],
          trace = [PrintNoNl ''Place finger on sensor...'', Call GetImage (Returns NOFINGER),
             PrintNoNl ''.'', Call GetImage (Returns NOFINGER), PrintNoNl ''.'',
             Call GetImage (Returns IMAGEFAIL), Print ''Imaging error'']\<rparr>) \<and>
   enroll_finger 5 \<lparr>script = map Returns [NOFINGER, NOFINGER, OK, IMAGEMESS], trace = []\<rparr> =
     (Ret False,
      \<lparr>script = [],
          trace = [PrintNoNl ''Place finger on sensor...'', Call GetImage (Returns NOFINGER),
             PrintNoNl ''.'', Call GetImage (Returns NOFINGER), PrintNoNl ''.'',
             Call GetImage (Returns OK), Print ''Image taken'', PrintNoNl ''Templating...'',
             Call (Image2Tz 1) (Returns IMAGEMESS), Print ''Image too messy'']\<rparr>) \<and>
   enroll_finger 5 \<lparr>script = map Returns [NOFINGER, OK, OK, IMAGEFAIL, NOFINGER, NOFINGER, NOFINGER, IMAGEFAIL], trace = []\<rparr> =
     (Ret False,
      \<lparr>script = [],
          trace = [PrintNoNl ''Place finger on sensor...'', Call GetImage (Returns NOFINGER),
             PrintNoNl ''.'', Call GetImage (Returns OK), Print ''Image taken'',
             PrintNoNl ''Templating...'', Call (Image2Tz 1) (Returns OK), Print ''Templated'',
             Print ''Remove finger'', Sleep 1, Call GetImage (Returns IMAGEFAIL),
             Call GetImage (Returns NOFINGER), PrintNoNl ''Place same finger again...'',
             Call GetImage (Returns NOFINGER), PrintNoNl ''.'',
             Call GetImage (Returns NOFINGER), PrintNoNl ''.'',
             Call GetImage (Returns IMAGEFAIL), Print ''Imaging error'']\<rparr>) \<and>
   enroll_finger 5 \<lparr>script = map Returns [NOFINGER, OK, OK, IMAGEFAIL, NOFINGER, NOFINGER, NOFINGER, OK, IMAGEMESS], trace = []\<rparr> =
     (Ret False,
      \<lparr>script = [],
          trace = [PrintNoNl ''Place finger on sensor...'', Call GetImage (Returns NOFINGER),
             PrintNoNl ''.'', Call GetImage (Returns OK), Print ''Image taken'',
             PrintNoNl ''Templating...'', Call (Image2Tz 1) (Returns OK), Print ''Templated'',
             Print ''Remove finger'', Sleep 1, Call GetImage (Returns IMAGEFAIL),
             Call GetImage (Returns NOFINGER), PrintNoNl ''Place same finger again...'',
             Call GetImage (Returns NOFINGER), PrintNoNl ''.'',
             Call GetImage (Returns NOFINGER), PrintNoNl ''.'', Call GetImage (Returns OK),
             Print ''Image taken'', PrintNoNl ''Templating...'',
             Call (Image2Tz 2) (Returns IMAGEMESS), Print ''Image too messy'']\<rparr>)"
  using enroll_pass_failures
    [where location = 5 and n = 2 and rest = "[]" and t = "[]" and i = IMAGEMESS
       and xs = "[IMAGEFAIL]" and m = 1]
  by (simp add: first_pass_answers_def first_pass_events_def dots_def polls_def eval_nat_numeral)

section \<open>The indicator line\<close>




section \<open>What the caller learns of a failure\<close>

text \<open>
  C7, as stated: the result of the composite operation tells the terminal statuses
  apart. It does not: a messy image, a mismatch, a bad location and a flash error all make
  \<^verbatim>\<open>enroll_finger\<close> return the one value \<^verbatim>\<open>False\<close>, and \<^verbatim>\<open>get_fingerprint\<close> returns
  \<^verbatim>\<open>False\<close> and prints nothing about the status.
\<close>

theorem failures_all_return_false:
  "fst (enroll_finger 1 \<lparr>script = map Returns [OK, IMAGEMESS], trace = []\<rparr>) = Ret False \<and>
   fst (enroll_finger 1
          \<lparr>script = map Returns [OK, OK, NOFINGER, OK, OK, ENROLLMISMATCH], trace = []\<rparr>) =
     Ret False \<and>
   fst (enroll_finger 1
          \<lparr>script = map Returns [OK, OK, NOFINGER, OK, OK, OK, BADLOCATION], trace = []\<rparr>) =
     Ret False \<and>
   fst (enroll_finger 1
          \<lparr>script = map Returns [OK, OK, NOFINGER, OK, OK, OK, FLASHERR], trace = []\<rparr>) =
     Ret False \<and>
   get_fingerprint \<lparr>script = map Returns [OK, IMAGEMESS], trace = []\<rparr> =
     (Ret False,
      \<lparr>script = [],
         trace = [Print ''Waiting for image...'', Call GetImage (Returns OK),
           Print ''Templating...'', Call (Image2Tz 1) (Returns IMAGEMESS)]\<rparr>)"
  by (simp add: enroll_finger_def enroll_pass_def enroll_model_and_store_def get_fingerprint_def
      primitive_defs)

text \<open>
  C7, amended: no status is surfaced in the result of a composite operation, which is
  only a boolean. In \<^verbatim>\<open>enroll_finger\<close>, a status \<open>i\<close> other than \<^verbatim>\<open>OK\<close> and
  \<^verbatim>\<open>NOFINGER\<close> from \<^verbatim>\<open>get_image\<close> in the capture loop of either pass (\<^verbatim>\<open>IMAGEFAIL\<close>
  included), and a status other than \<^verbatim>\<open>OK\<close> from \<^verbatim>\<open>image_2_tz\<close> in either pass, from
  \<^verbatim>\<open>create_model\<close> or from \<^verbatim>\<open>store_model\<close>, ends the run with \<^verbatim>\<open>False\<close>, and the cause
  is told only by the line printed last (Imaging error, Image too messy, Could not
  identify features, Image invalid, Prints did not match, Bad storage location, Flash
  storage error, Other error). The statuses \<open>xs\<close> that \<^verbatim>\<open>get_image\<close> answers during the
  removal wait, \<^verbatim>\<open>IMAGEFAIL\<close> among them, are polled past, and the result can still be
  \<^verbatim>\<open>True\<close>. In \<^verbatim>\<open>get_fingerprint\<close>, every status \<open>sts\<close> other than \<^verbatim>\<open>OK\<close> from
  \<^verbatim>\<open>get_image\<close>, \<^verbatim>\<open>IMAGEFAIL\<close> included, is polled past, and the result can still be
  \<^verbatim>\<open>True\<close>; a status other than \<^verbatim>\<open>OK\<close> from \<^verbatim>\<open>image_2_tz\<close> or from the search ends
  the run with \<^verbatim>\<open>False\<close>, and nothing is printed about it.
\<close>

theorem failures_told_apart_by_message_only:
  "(i \<noteq> OK \<and> i \<noteq> NOFINGER \<longrightarrow>
    enroll_finger location
      \<lparr>script = map Returns (replicate n NOFINGER @ [i]) @ rest, trace = t\<rparr> =
    (Ret False,
     \<lparr>script = rest,
        trace = t @ [PrintNoNl ''Place finger on sensor...''] @ dots n @
          [Call GetImage (Returns i),
           Print (if i = IMAGEFAIL then ''Imaging error'' else ''Other error'')]\<rparr>)) \<and>
   (i \<noteq> OK \<longrightarrow>
    enroll_finger location
      \<lparr>script = map Returns (replicate n NOFINGER @ [OK, i]) @ rest, trace = t\<rparr> =
    (Ret False,
     \<lparr>script = rest,
        trace = t @ [PrintNoNl ''Place finger on sensor...''] @ dots n @
          [Call GetImage (Returns OK), Print ''Image taken'', PrintNoNl ''Templating...'',
           Call (Image2Tz 1) (Returns i),
           Print (if i = IMAGEMESS then ''Image too messy''
                  else if i = FEATUREFAIL then ''Could not identify features''
                  else if i = INVALIDIMAGE then ''Image invalid''
                  else ''Other error'')]\<rparr>)) \<and>
   (NOFINGER \<notin> set xs \<longrightarrow>
    enroll_finger location
      \<lparr>script = map Returns (first_pass_answers n xs @ second_pass_answers m @ [OK, OK]) @ rest,
         trace = t\<rparr> =
    (Ret True,
     \<lparr>script = rest,
        trace = t @ first_pass_events n xs @ second_pass_events m @
          [PrintNoNl ''Creating model...'', Call CreateModel (Returns OK), Print ''Created'',
           PrintNoNl (''Storing model #'' @ str_int location @ ''...''),
           Call (StoreModel location) (Returns OK), Print ''Stored'']\<rparr>)) \<and>
   (NOFINGER \<notin> set xs \<and> i \<noteq> OK \<and> i \<noteq> NOFINGER \<longrightarrow>
    enroll_finger location
      \<lparr>script = map Returns (first_pass_answers n xs @ replicate m NOFINGER @ [i]) @ rest,
         trace = t\<rparr> =
    (Ret False,
     \<lparr>script = rest,
        trace = t @ first_pass_events n xs @ [PrintNoNl ''Place same finger again...''] @
          dots m @
          [Call GetImage (Returns i),
           Print (if i = IMAGEFAIL then ''Imaging error'' else ''Other error'')]\<rparr>)) \<and>
   (NOFINGER \<notin> set xs \<and> i \<noteq> OK \<longrightarrow>
    enroll_finger location
      \<lparr>script = map Returns (first_pass_answers n xs @ replicate m NOFINGER @ [OK, i]) @ rest,
         trace = t\<rparr> =
    (Ret False,
     \<lparr>script = rest,
        trace = t @ first_pass_events n xs @ [PrintNoNl ''Place same finger again...''] @
          dots m @
          [Call GetImage (Returns OK), Print ''Image taken'', PrintNoNl ''Templating...'',
           Call (Image2Tz 2) (Returns i),
           Print (if i = IMAGEMESS then ''Image too messy''
                  else if i = FEATUREFAIL then ''Could not identify features''
                  else if i = INVALIDIMAGE then ''Image invalid''
                  else ''Other error'')]\<rparr>)) \<and>
   (NOFINGER \<notin> set xs \<and> i \<noteq> OK \<longrightarrow>
    enroll_finger location
      \<lparr>script = map Returns (first_pass_answers n xs @ second_pass_answers m @ [i]) @ rest,
         trace = t\<rparr> =
    (Ret False,
     \<lparr>script = rest,
        trace = t @ first_pass_events n xs @ second_pass_events m @
          [PrintNoNl ''Creating model...'', Call CreateModel (Returns i),
           Print (if i = ENROLLMISMATCH then ''Prints did not match''
                  else ''Other error'')]\<rparr>)) \<and>
   (NOFINGER \<notin> set xs \<and> i \<noteq> OK \<longrightarrow>
    enroll_finger location
      \<lparr>script = map Returns (first_pass_answers n xs @ second_pass_answers m @ [OK, i]) @ rest,
         trace = t\<rparr> =
    (Ret False,
     \<lparr>script = rest,
        trace = t @ first_pass_events n xs @ second_pass_events m @
          [PrintNoNl ''Creating model...'', Call CreateModel (Returns OK), Print ''Created'',
           PrintNoNl (''Storing model #'' @ str_int location @ ''...''),
           Call (StoreModel location) (Returns i),
           Print (if i = BADLOCATION then ''Bad storage location''
                  else if i = FLASHERR then ''Flash storage error''
                  else ''Other error'')]\<rparr>)) \<and>
   (OK \<notin> set sts \<longrightarrow>
    get_fingerprint \<lparr>script = map Returns (sts @ [OK, OK, OK]) @ rest, trace = t\<rparr> =
    (Ret True,
     \<lparr>script = rest,
        trace = t @ [Print ''Waiting for image...''] @ polls sts @
          [Call GetImage (Returns OK), Print ''Templating...'', Call (Image2Tz 1) (Returns OK),
           Print ''Searching...'', Call FingerSearch (Returns OK)]\<rparr>)) \<and>
   (OK \<notin> set sts \<and> i \<noteq> OK \<longrightarrow>
    get_fingerprint \<lparr>script = map Returns (sts @ [OK, i]) @ rest, trace = t\<rparr> =
    (Ret False,
     \<lparr>script = rest,
        trace = t @ [Print ''Waiting for image...''] @ polls sts @
          [Call GetImage (Returns OK), Print ''Templating...'',
           Call (Image2Tz 1) (Returns i)]\<rparr>)) \<and>
   (OK \<notin> set sts \<and> i \<noteq> OK \<longrightarrow>
    get_fingerprint \<lparr>script = map Returns (sts @ [OK, OK, i]) @ rest, trace = t\<rparr> =
    (Ret False,
     \<lparr>script = rest,
        trace = t @ [Print ''Waiting for image...''] @ polls sts @
          [Call GetImage (Returns OK), Print ''Templating...'', Call (Image2Tz 1) (Returns OK),
           Print ''Searching...'', Call FingerSearch (Returns i)]\<rparr>))"
  by (simp add: enroll_finger_def pass1_forward pass2_forward pass1_capture_fails
      pass_extract_fails model_and_store_simps prompt_def get_fingerprint_def image_2_tz_def
      finger_search_def)

text \<open>
  C7, the amended statement for the status \<^verbatim>\<open>IMAGEFAIL\<close> at each place, with
  \<^verbatim>\<open>IMAGEFAIL\<close> also seen while polling.
\<close>

theorem failures_told_apart_by_message_only_witness:
  "IMAGEFAIL \<noteq> OK \<and> IMAGEFAIL \<noteq> NOFINGER \<and> NOFINGER \<notin> set [IMAGEFAIL] \<and>
   OK \<notin> set [IMAGEFAIL, NOFINGER] \<and>
   enroll_finger 5 \<lparr>script = map Returns [NOFINGER, IMAGEFAIL], trace = []\<rparr> =
     (Ret False,
      \<lparr>script = [],
          trace = [PrintNoNl ''Place finger on sensor...'', Call GetImage (Returns NOFINGER),
             PrintNoNl ''.'', Call GetImage (Returns IMAGEFAIL), Print ''Imaging error'']\<rparr>) \<and>
   enroll_finger 5 \<lparr>script = map Returns [NOFINGER, OK, IMAGEFAIL], trace = []\<rparr> =
     (Ret False,
      \<lparr>script = [],
          trace = [PrintNoNl ''Place finger on sensor...'', Call GetImage (Returns NOFINGER),
             PrintNoNl ''.'', Call GetImage (Returns OK), Print ''Image taken'',
             PrintNoNl ''Templating...'', Call (Image2Tz 1) (Returns IMAGEFAIL),
             Print ''Other error'']\<rparr>) \<and>
   enroll_finger 5 \<lparr>script = map Returns [NOFINGER, OK, OK, IMAGEFAIL, NOFINGER, NOFINGER, OK, OK, OK, OK], trace = []\<rparr> =
     (Ret True,
      \<lparr>script = [],
          trace = [PrintNoNl ''Place finger on sensor...'', Call GetImage (Returns NOFINGER),
             PrintNoNl ''.'', Call GetImage (Returns OK), Print ''Image taken'',
             PrintNoNl ''Templating...'', Call (Image2Tz 1) (Returns OK), Print ''Templated'',
             Print ''Remove finger'', Sleep 1, Call GetImage (Returns IMAGEFAIL),
             Call GetImage (Returns NOFINGER), PrintNoNl ''Place same finger again...'',
             Call GetImage (Returns NOFINGER), PrintNoNl ''.'', Call GetImage (Returns OK),
             Print ''Image taken'', PrintNoNl ''Templating...'',
             Call (Image2Tz 2) (Returns OK), Print ''Templated'',
             PrintNoNl ''Creating model...'', Call CreateModel (Returns OK), Print ''Created'',
             PrintNoNl ''Storing model #5...'', Call (StoreModel 5) (Returns OK),
             Print ''Stored'']\<rparr>) \<and>
   enroll_finger 5 \<lparr>script = map Returns [NOFINGER, OK, OK, IMAGEFAIL, NOFINGER, NOFINGER, IMAGEFAIL], trace = []\<rparr> =
     (Ret False,
      \<lparr>script = [],
          trace = [PrintNoNl ''Place finger on sensor...'', Call GetImage (Returns NOFINGER),
             PrintNoNl ''.'', Call GetImage (Returns OK), Print ''Image taken'',
             PrintNoNl ''Templating...'', Call (Image2Tz 1) (Returns OK), Print ''Templated'',
             Print ''Remove finger'', Sleep 1, Call GetImage (Returns IMAGEFAIL),
             Call GetImage (Returns NOFINGER), PrintNoNl ''Place same finger again...'',
             Call GetImage (Returns NOFINGER), PrintNoNl ''.'',
             Call GetImage (Returns IMAGEFAIL), Print ''Imaging error'']\<rparr>) \<and>
   enroll_finger 5 \<lparr>script = map Returns [NOFINGER, OK, OK, IMAGEFAIL, NOFINGER, NOFINGER, OK, IMAGEFAIL], trace = []\<rparr> =
     (Ret False,
      \<lparr>script = [],
          trace = [PrintNoNl ''Place finger on sensor...'', Call GetImage (Returns NOFINGER),
             PrintNoNl ''.'', Call GetImage (Returns OK), Print ''Image taken'',
             PrintNoNl ''Templating...'', Call (Image2Tz 1) (Returns OK), Print ''Templated'',
             Print ''Remove finger'', Sleep 1, Call GetImage (Returns IMAGEFAIL),
             Call GetImage (Returns NOFINGER), PrintNoNl ''Place same finger again...'',
             Call GetImage (Returns NOFINGER), PrintNoNl ''.'', Call GetImage (Returns OK),
             Print ''Image taken'', PrintNoNl ''Templating...'',
             Call (Image2Tz 2) (Returns IMAGEFAIL), Print ''Other error'']\<rparr>) \<and>
   enroll_finger 5 \<lparr>script = map Returns [NOFINGER, OK, OK, IMAGEFAIL, NOFINGER, NOFINGER, OK, OK, IMAGEFAIL], trace = []\<rparr> =
     (Ret False,
      \<lparr>script = [],
          trace = [PrintNoNl ''Place finger on sensor...'', Call GetImage (Returns NOFINGER),
             PrintNoNl ''.'', Call GetImage (Returns OK), Print ''Image taken'',
             PrintNoNl ''Templating...'', Call (Image2Tz 1) (Returns OK), Print ''Templated'',
             Print ''Remove finger'', Sleep 1, Call GetImage (Returns IMAGEFAIL),
             Call GetImage (Returns NOFINGER), PrintNoNl ''Place same finger again...'',
             Call GetImage (Returns NOFINGER), PrintNoNl ''.'', Call GetImage (Returns OK),
             Print ''Image taken'', PrintNoNl ''Templating...'',
             Call (Image2Tz 2) (Returns OK), Print ''Templated'',
             PrintNoNl ''Creating model...'', Call CreateModel (Returns IMAGEFAIL),
             Print ''Other error'']\<rparr>) \<and>
   enroll_finger 5 \<lparr>script = map Returns [NOFINGER, OK, OK, IMAGEFAIL, NOFINGER, NOFINGER, OK, OK, OK, IMAGEFAIL], trace = []\<rparr> =
     (Ret False,
      \<lparr>script = [],
          trace = [PrintNoNl ''Place finger on sensor...'', Call GetImage (Returns NOFINGER),
             PrintNoNl ''.'', Call GetImage (Returns OK), Print ''Image taken'',
             PrintNoNl ''Templating...'', Call (Image2Tz 1) (Returns OK), Print ''Templated'',
             Print ''Remove finger'', Sleep 1, Call GetImage (Returns IMAGEFAIL),
             Call GetImage (Returns NOFINGER), PrintNoNl ''Place same finger again...'',
             Call GetImage (Returns NOFINGER), PrintNoNl ''.'', Call GetImage (Returns OK),
             Print ''Image taken'', PrintNoNl ''Templating...'',
             Call (Image2Tz 2) (Returns OK), Print ''Templated'',
             PrintNoNl ''Creating model...'', Call CreateModel (Returns OK), Print ''Created'',
             PrintNoNl ''Storing model #5...'', Call (StoreModel 5) (Returns IMAGEFAIL),
             Print ''Other error'']\<rparr>) \<and>
   get_fingerprint \<lparr>script = map Returns [IMAGEFAIL, NOFINGER, OK, OK, OK], trace = []\<rparr> =
     (Ret True,
      \<lparr>script = [],
          trace = [Print ''Waiting for image...'', Call GetImage (Returns IMAGEFAIL),
             Call GetImage (Returns NOFINGER), Call GetImage (Returns OK),
             Print ''Templating...'', Call (Image2Tz 1) (Returns OK), Print ''Searching...'',
             Call FingerSearch (Returns OK)]\<rparr>) \<and>
   get_fingerprint \<lparr>script = map Returns [IMAGEFAIL, NOFINGER, OK, IMAGEFAIL], trace = []\<rparr> =
     (Ret False,
      \<lparr>script = [],
          trace = [Print ''Waiting for image...'', Call GetImage (Returns IMAGEFAIL),
             Call GetImage (Returns NOFINGER), Call GetImage (Returns OK),
             Print ''Templating...'', Call (Image2Tz 1) (Returns IMAGEFAIL)]\<rparr>) \<and>
   get_fingerprint \<lparr>script = map Returns [IMAGEFAIL, NOFINGER, OK, OK, IMAGEFAIL], trace = []\<rparr> =
     (Ret False,
      \<lparr>script = [],
          trace = [Print ''Waiting for image...'', Call GetImage (Returns IMAGEFAIL),
             Call GetImage (Returns NOFINGER), Call GetImage (Returns OK),
             Print ''Templating...'', Call (Image2Tz 1) (Returns OK), Print ''Searching...'',
             Call FingerSearch (Returns IMAGEFAIL)]\<rparr>)"
  using failures_told_apart_by_message_only
    [where i = IMAGEFAIL and xs = "[IMAGEFAIL]" and sts = "[IMAGEFAIL, NOFINGER]"
       and location = 5 and n = 1 and m = 1 and rest = "[]" and t = "[]"]
  by (simp add: first_pass_answers_def first_pass_events_def second_pass_answers_def
      second_pass_events_def dots_def polls_def eval_nat_numeral str_int_def str_nat.simps)

section \<open>Polling without a bound\<close>

text \<open>
  C8: the capture polling has no bound. However many answers other than \<^verbatim>\<open>OK\<close> the
  loop of \<^verbatim>\<open>get_fingerprint\<close> is given, and however many \<^verbatim>\<open>NOFINGER\<close> the capture loop
  of pass 1 or of pass 2 of \<^verbatim>\<open>enroll_finger\<close> is given, the loop has polled once per
  answer and has not stopped: it is inside its next \<^verbatim>\<open>get_image\<close>.
\<close>

theorem polling_is_unbounded:
  "(OK \<notin> set sts \<longrightarrow>
    get_fingerprint \<lparr>script = map Returns sts, trace = t\<rparr> =
    (Blocked, \<lparr>script = [], trace = t @ [Print ''Waiting for image...''] @ polls sts\<rparr>)) \<and>
   enroll_finger location \<lparr>script = map Returns (replicate n NOFINGER), trace = t\<rparr> =
   (Blocked,
    \<lparr>script = [], trace = t @ [PrintNoNl ''Place finger on sensor...''] @ dots n\<rparr>) \<and>
   (NOFINGER \<notin> set xs \<longrightarrow>
    enroll_finger location
      \<lparr>script = map Returns (first_pass_answers m xs @ replicate n NOFINGER), trace = t\<rparr> =
    (Blocked,
     \<lparr>script = [],
        trace = t @ first_pass_events m xs @ [PrintNoNl ''Place same finger again...''] @
          dots n\<rparr>))"
  using poll_forward [of sts "[]"] pass1_forward [of xs m "replicate n (Returns NOFINGER)"]
  by (simp add: enroll_forward get_fingerprint_def)

text \<open>
  C8 with three answers for each of the three loops.
\<close>

theorem polling_is_unbounded_witness:
  "OK \<notin> set [NOFINGER, IMAGEFAIL, NOFINGER] \<and> NOFINGER \<notin> set [IMAGEFAIL] \<and>
   get_fingerprint \<lparr>script = map Returns [NOFINGER, IMAGEFAIL, NOFINGER], trace = []\<rparr> =
     (Blocked,
      \<lparr>script = [],
          trace = [Print ''Waiting for image...'', Call GetImage (Returns NOFINGER),
             Call GetImage (Returns IMAGEFAIL), Call GetImage (Returns NOFINGER)]\<rparr>) \<and>
   enroll_finger 5 \<lparr>script = map Returns [NOFINGER, NOFINGER, NOFINGER], trace = []\<rparr> =
     (Blocked,
      \<lparr>script = [],
          trace = [PrintNoNl ''Place finger on sensor...'', Call GetImage (Returns NOFINGER),
             PrintNoNl ''.'', Call GetImage (Returns NOFINGER), PrintNoNl ''.'',
             Call GetImage (Returns NOFINGER), PrintNoNl ''.'']\<rparr>) \<and>
   enroll_finger 5 \<lparr>script = map Returns [NOFINGER, OK, OK, IMAGEFAIL, NOFINGER, NOFINGER, NOFINGER, NOFINGER], trace = []\<rparr> =
     (Blocked,
      \<lparr>script = [],
          trace = [PrintNoNl ''Place finger on sensor...'', Call GetImage (Returns NOFINGER),
             PrintNoNl ''.'', Call GetImage (Returns OK), Print ''Image taken'',
             PrintNoNl ''Templating...'', Call (Image2Tz 1) (Returns OK), Print ''Templated'',
             Print ''Remove finger'', Sleep 1, Call GetImage (Returns IMAGEFAIL),
             Call GetImage (Returns NOFINGER), PrintNoNl ''Place same finger again...'',
             Call GetImage (Returns NOFINGER), PrintNoNl ''.'',
             Call GetImage (Returns NOFINGER), PrintNoNl ''.'',
             Call GetImage (Returns NOFINGER), PrintNoNl ''.'']\<rparr>)"
  using polling_is_unbounded
    [where sts = "[NOFINGER, IMAGEFAIL, NOFINGER]" and t = "[]" and location = 5 and n = 3
       and xs = "[IMAGEFAIL]" and m = 1]
  by (simp add: first_pass_answers_def first_pass_events_def dots_def polls_def eval_nat_numeral)

section \<open>When enrollment succeeds\<close>

text \<open>
  C9: \<^verbatim>\<open>enroll_finger\<close> returns \<^verbatim>\<open>True\<close> exactly on the answers with which every step
  succeeds in order: both captures end with \<^verbatim>\<open>OK\<close> (after \<open>n\<close> and \<open>m\<close> polls without a
  finger), both extractions answer \<^verbatim>\<open>OK\<close>, the finger is removed in between, and
  \<^verbatim>\<open>create_model\<close> and \<^verbatim>\<open>store_model\<close> answer \<^verbatim>\<open>OK\<close>. On every such list of answers
  the run is the one written out: each step is made and answered \<^verbatim>\<open>OK\<close>, the model is
  stored at the given location, and the result is \<^verbatim>\<open>True\<close>. The result is \<^verbatim>\<open>True\<close>
  exactly when \<^verbatim>\<open>store_model\<close> was called and answered \<^verbatim>\<open>OK\<close>. And in any run,
  finished or not, \<^verbatim>\<open>store_model\<close> is called only with the given location and only
  after all the steps before it were answered \<^verbatim>\<open>OK\<close>.
\<close>

theorem enroll_true_iff_every_step_ok:
  "(fst (enroll_finger location w) = Ret True) =
     (\<exists>n xs m rest. NOFINGER \<notin> set xs \<and>
        script w =
          map Returns (first_pass_answers n xs @ second_pass_answers m @ [OK, OK]) @ rest) \<and>
   (\<forall>n xs m rest. NOFINGER \<notin> set xs \<and>
      script w =
        map Returns (first_pass_answers n xs @ second_pass_answers m @ [OK, OK]) @ rest \<longrightarrow>
      enroll_finger location w =
        (Ret True,
         \<lparr>script = rest,
            trace = trace w @ first_pass_events n xs @ second_pass_events m @
              [PrintNoNl ''Creating model...'', Call CreateModel (Returns OK), Print ''Created'',
               PrintNoNl (''Storing model #'' @ str_int location @ ''...''),
               Call (StoreModel location) (Returns OK), Print ''Stored'']\<rparr>)) \<and>
   (fst (enroll_finger location w) = Ret True) =
     (Call (StoreModel location) (Returns OK) \<in>
        set (drop (length (trace w)) (trace (snd (enroll_finger location w))))) \<and>
   (\<forall>loc a. Call (StoreModel loc) a \<in>
        set (drop (length (trace w)) (trace (snd (enroll_finger location w)))) \<longrightarrow>
      loc = location \<and>
      (\<exists>n xs m post. NOFINGER \<notin> set xs \<and>
         drop (length (trace w)) (trace (snd (enroll_finger location w))) =
           first_pass_events n xs @ second_pass_events m @
           [PrintNoNl ''Creating model...'', Call CreateModel (Returns OK), Print ''Created'',
            PrintNoNl (''Storing model #'' @ str_int location @ ''...''),
            Call (StoreModel location) a] @ post))"
proof -
  obtain r w' where run: "enroll_finger location w = (r, w')"
    by (cases "enroll_finger location w") auto
  have fwd: "\<exists>n xs m rest. NOFINGER \<notin> set xs \<and>
        script w = map Returns (first_pass_answers n xs @ second_pass_answers m @ [OK, OK]) @ rest \<and>
        w' =
          \<lparr>script = rest,
             trace = trace w @ first_pass_events n xs @ second_pass_events m @
               [PrintNoNl ''Creating model...'', Call CreateModel (Returns OK), Print ''Created'',
                PrintNoNl (''Storing model #'' @ str_int location @ ''...''),
                Call (StoreModel location) (Returns OK), Print ''Stored'']\<rparr>"
    if "r = Ret True"
    using run
  proof (cases rule: enroll_finger_cases)
    case (first evs)
    with that show ?thesis by simp
  next
    case (second n xs evs)
    with that show ?thesis by simp
  next
    case (model n xs m w2)
    from model(4) that obtain rest where
      "script w2 = Returns OK # Returns OK # rest"
      "w' = \<lparr>script = rest,
              trace = trace w2 @ [PrintNoNl ''Creating model...'', Call CreateModel (Returns OK),
                Print ''Created'',
                PrintNoNl (''Storing model #'' @ str_int location @ ''...''),
                Call (StoreModel location) (Returns OK), Print ''Stored'']\<rparr>"
      by (cases rule: model_and_store_cases) auto
    with model show ?thesis
      by (intro exI [of _ n] exI [of _ xs] exI [of _ m] exI [of _ rest]) simp
  qed
  have bwd: "r = Ret True"
    if "NOFINGER \<notin> set xs" and
      "script w = map Returns (first_pass_answers n xs @ second_pass_answers m @ [OK, OK]) @ rest"
    for n xs m rest
    using that run enroll_success [of xs location n m rest "trace w"]
    by (cases w) simp
  have store: "loc = location \<and>
      (\<exists>n xs m post. NOFINGER \<notin> set xs \<and>
         drop (length (trace w)) (trace w') =
           first_pass_events n xs @ second_pass_events m @
           [PrintNoNl ''Creating model...'', Call CreateModel (Returns OK), Print ''Created'',
            PrintNoNl (''Storing model #'' @ str_int location @ ''...''),
            Call (StoreModel location) a] @ post)"
    if called: "Call (StoreModel loc) a \<in> set (drop (length (trace w)) (trace w'))"
    for loc a
    using run
  proof (cases rule: enroll_finger_cases)
    case (first evs)
    with called show ?thesis by (auto dest: pass_event_call)
  next
    case (second n xs evs)
    with called show ?thesis by (auto dest: pass_event_call first_pass_calls)
  next
    case (model n xs m w2)
    from model(4) show ?thesis
    proof (cases rule: model_and_store_cases)
      case create_blocked
      with model called show ?thesis by (auto dest: first_pass_calls second_pass_calls)
    next
      case (create_raised rest)
      with model called show ?thesis by (auto dest: first_pass_calls second_pass_calls)
    next
      case (create_rejected i rest)
      with model called show ?thesis by (auto dest: first_pass_calls second_pass_calls)
    next
      case store_blocked
      with model called show ?thesis by (auto dest: first_pass_calls second_pass_calls)
    next
      case (store_raised rest)
      with model called have "loc = location" "a = Raises"
        by (auto dest: first_pass_calls second_pass_calls)
      with model store_raised show ?thesis
        by (intro conjI exI [of _ n] exI [of _ xs] exI [of _ m] exI [of _ "[]"]) simp_all
    next
      case (store_answered j rest)
      with model called have "loc = location" "a = Returns j"
        by (auto dest: first_pass_calls second_pass_calls)
      with model store_answered show ?thesis
        by (intro conjI exI [of _ n] exI [of _ xs] exI [of _ m]
              exI [of _ "[Print (if j = OK then ''Stored''
                       else if j = BADLOCATION then ''Bad storage location''
                       else if j = FLASHERR then ''Flash storage error''
                       else ''Other error'')]"]) simp_all
    qed
  qed
  have stored:
    "(r = Ret True) =
       (Call (StoreModel location) (Returns OK) \<in> set (drop (length (trace w)) (trace w')))"
    using run
  proof (cases rule: enroll_finger_cases)
    case (first evs)
    then show ?thesis by (auto dest: pass_event_call)
  next
    case (second n xs evs)
    then show ?thesis by (auto dest: pass_event_call first_pass_calls)
  next
    case (model n xs m w2)
    from model(4) show ?thesis
    proof (cases rule: model_and_store_cases)
      case create_blocked
      with model show ?thesis by (auto dest: first_pass_calls second_pass_calls)
    next
      case (create_raised rest)
      with model show ?thesis by (auto dest: first_pass_calls second_pass_calls)
    next
      case (create_rejected i rest)
      with model show ?thesis by (auto dest: first_pass_calls second_pass_calls)
    next
      case store_blocked
      with model show ?thesis by (auto dest: first_pass_calls second_pass_calls)
    next
      case (store_raised rest)
      with model show ?thesis by (auto dest: first_pass_calls second_pass_calls)
    next
      case (store_answered j rest)
      with model show ?thesis by (auto dest: first_pass_calls second_pass_calls)
    qed
  qed
  from fwd bwd have shape:
    "(r = Ret True) =
     (\<exists>n xs m rest. NOFINGER \<notin> set xs \<and>
        script w =
          map Returns (first_pass_answers n xs @ second_pass_answers m @ [OK, OK]) @ rest)"
    by blast
  have whole:
    "\<forall>n xs m rest. NOFINGER \<notin> set xs \<and>
      script w =
        map Returns (first_pass_answers n xs @ second_pass_answers m @ [OK, OK]) @ rest \<longrightarrow>
      (r, w') =
        (Ret True,
         \<lparr>script = rest,
            trace = trace w @ first_pass_events n xs @ second_pass_events m @
              [PrintNoNl ''Creating model...'', Call CreateModel (Returns OK), Print ''Created'',
               PrintNoNl (''Storing model #'' @ str_int location @ ''...''),
               Call (StoreModel location) (Returns OK), Print ''Stored'']\<rparr>)"
  proof (intro allI impI)
    fix n xs m rest
    assume "NOFINGER \<notin> set xs \<and>
      script w =
        map Returns (first_pass_answers n xs @ second_pass_answers m @ [OK, OK]) @ rest"
    with run enroll_success [of xs location n m rest "trace w"]
    show "(r, w') =
        (Ret True,
         \<lparr>script = rest,
            trace = trace w @ first_pass_events n xs @ second_pass_events m @
              [PrintNoNl ''Creating model...'', Call CreateModel (Returns OK), Print ''Created'',
               PrintNoNl (''Storing model #'' @ str_int location @ ''...''),
               Call (StoreModel location) (Returns OK), Print ''Stored'']\<rparr>)"
      by (cases w) simp
  qed
  from store have preceded:
    "\<forall>loc a. Call (StoreModel loc) a \<in> set (drop (length (trace w)) (trace w')) \<longrightarrow>
      loc = location \<and>
      (\<exists>n xs m post. NOFINGER \<notin> set xs \<and>
         drop (length (trace w)) (trace w') =
           first_pass_events n xs @ second_pass_events m @
           [PrintNoNl ''Creating model...'', Call CreateModel (Returns OK), Print ''Created'',
            PrintNoNl (''Storing model #'' @ str_int location @ ''...''),
            Call (StoreModel location) a] @ post)"
    by blast
  show ?thesis
    unfolding run fst_conv snd_conv by (rule conjI [OF shape conjI [OF whole conjI [OF stored preceded]]])
qed

text \<open>
  C9 on answers with which every step succeeds (with \<^verbatim>\<open>IMAGEFAIL\<close> seen during the
  removal wait) and on a run in which \<^verbatim>\<open>store_model\<close> answers \<^verbatim>\<open>FLASHERR\<close>.
\<close>

theorem enroll_true_iff_every_step_ok_witness:
  "NOFINGER \<notin> set [IMAGEFAIL] \<and>
   map Returns [NOFINGER, OK, OK, IMAGEFAIL, NOFINGER, NOFINGER, OK, OK, OK, OK] =
     map Returns (first_pass_answers 1 [IMAGEFAIL] @ second_pass_answers 1 @ [OK, OK]) @ [] \<and>
   enroll_finger 5 \<lparr>script = map Returns [NOFINGER, OK, OK, IMAGEFAIL, NOFINGER, NOFINGER, OK, OK, OK, OK], trace = []\<rparr> =
     (Ret True,
      \<lparr>script = [],
          trace = [PrintNoNl ''Place finger on sensor...'', Call GetImage (Returns NOFINGER),
             PrintNoNl ''.'', Call GetImage (Returns OK), Print ''Image taken'',
             PrintNoNl ''Templating...'', Call (Image2Tz 1) (Returns OK), Print ''Templated'',
             Print ''Remove finger'', Sleep 1, Call GetImage (Returns IMAGEFAIL),
             Call GetImage (Returns NOFINGER), PrintNoNl ''Place same finger again...'',
             Call GetImage (Returns NOFINGER), PrintNoNl ''.'', Call GetImage (Returns OK),
             Print ''Image taken'', PrintNoNl ''Templating...'',
             Call (Image2Tz 2) (Returns OK), Print ''Templated'',
             PrintNoNl ''Creating model...'', Call CreateModel (Returns OK), Print ''Created'',
             PrintNoNl ''Storing model #5...'', Call (StoreModel 5) (Returns OK),
             Print ''Stored'']\<rparr>) \<and>
   fst (enroll_finger 5
     \<lparr>script = map Returns [NOFINGER, OK, OK, IMAGEFAIL, NOFINGER, NOFINGER, OK, OK, OK, OK], trace = []\<rparr>) =
     Ret True \<and>
   Call (StoreModel 5) (Returns OK) \<in>
     set (trace (snd (enroll_finger 5
       \<lparr>script = map Returns [NOFINGER, OK, OK, IMAGEFAIL, NOFINGER, NOFINGER, OK, OK, OK, OK], trace = []\<rparr>))) \<and>
   enroll_finger 5 \<lparr>script = map Returns [NOFINGER, OK, OK, IMAGEFAIL, NOFINGER, NOFINGER, OK, OK, OK, FLASHERR], trace = []\<rparr> =
     (Ret False,
      \<lparr>script = [],
          trace = [PrintNoNl ''Place finger on sensor...'', Call GetImage (Returns NOFINGER),
             PrintNoNl ''.'', Call GetImage (Returns OK), Print ''Image taken'',
             PrintNoNl ''Templating...'', Call (Image2Tz 1) (Returns OK), Print ''Templated'',
             Print ''Remove finger'', Sleep 1, Call GetImage (Returns IMAGEFAIL),
             Call GetImage (Returns NOFINGER), PrintNoNl ''Place same finger again...'',
             Call GetImage (Returns NOFINGER), PrintNoNl ''.'', Call GetImage (Returns OK),
             Print ''Image taken'', PrintNoNl ''Templating...'',
             Call (Image2Tz 2) (Returns OK), Print ''Templated'',
             PrintNoNl ''Creating model...'', Call CreateModel (Returns OK), Print ''Created'',
             PrintNoNl ''Storing model #5...'', Call (StoreModel 5) (Returns FLASHERR),
             Print ''Flash storage error'']\<rparr>) \<and>
   (\<exists>n xs m post. NOFINGER \<notin> set xs \<and>
      trace (snd (enroll_finger 5
        \<lparr>script = map Returns [NOFINGER, OK, OK, IMAGEFAIL, NOFINGER, NOFINGER, OK, OK, OK, FLASHERR], trace = []\<rparr>)) =
        first_pass_events n xs @ second_pass_events m @
        [PrintNoNl ''Creating model...'', Call CreateModel (Returns OK), Print ''Created'',
         PrintNoNl (''Storing model #'' @ str_int 5 @ ''...''),
         Call (StoreModel 5) (Returns FLASHERR)] @ post)"
proof -
  let ?ok = "\<lparr>script = map Returns [NOFINGER, OK, OK, IMAGEFAIL, NOFINGER, NOFINGER, OK, OK, OK, OK], trace = []\<rparr>"
  let ?fl = "\<lparr>script = map Returns [NOFINGER, OK, OK, IMAGEFAIL, NOFINGER, NOFINGER, OK, OK, OK, FLASHERR], trace = []\<rparr>"
  have answers:
    "NOFINGER \<notin> set [IMAGEFAIL] \<and>
     script ?ok =
       map Returns (first_pass_answers 1 [IMAGEFAIL] @ second_pass_answers 1 @ [OK, OK]) @ []"
    by (simp add: first_pass_answers_def second_pass_answers_def)
  from enroll_true_iff_every_step_ok [of 5 ?ok] answers have
    "enroll_finger 5 ?ok =
       (Ret True,
        \<lparr>script = [],
           trace = trace ?ok @ first_pass_events 1 [IMAGEFAIL] @ second_pass_events 1 @
             [PrintNoNl ''Creating model...'', Call CreateModel (Returns OK), Print ''Created'',
              PrintNoNl (''Storing model #'' @ str_int 5 @ ''...''),
              Call (StoreModel 5) (Returns OK), Print ''Stored'']\<rparr>)"
    by blast
  then have ok: "enroll_finger 5 ?ok =
     (Ret True,
      \<lparr>script = [],
          trace = [PrintNoNl ''Place finger on sensor...'', Call GetImage (Returns NOFINGER),
             PrintNoNl ''.'', Call GetImage (Returns OK), Print ''Image taken'',
             PrintNoNl ''Templating...'', Call (Image2Tz 1) (Returns OK), Print ''Templated'',
             Print ''Remove finger'', Sleep 1, Call GetImage (Returns IMAGEFAIL),
             Call GetImage (Returns NOFINGER), PrintNoNl ''Place same finger again...'',
             Call GetImage (Returns NOFINGER), PrintNoNl ''.'', Call GetImage (Returns OK),
             Print ''Image taken'', PrintNoNl ''Templating...'',
             Call (Image2Tz 2) (Returns OK), Print ''Templated'',
             PrintNoNl ''Creating model...'', Call CreateModel (Returns OK), Print ''Created'',
             PrintNoNl ''Storing model #5...'', Call (StoreModel 5) (Returns OK),
             Print ''Stored'']\<rparr>)"
    by (simp add: first_pass_events_def second_pass_events_def dots_def polls_def
        str_int_def str_nat.simps)
  from enroll_true_iff_every_step_ok [of 5 ?ok] answers have true:
    "fst (enroll_finger 5 ?ok) = Ret True"
    by blast
  have fl: "enroll_finger 5 ?fl =
     (Ret False,
      \<lparr>script = [],
          trace = [PrintNoNl ''Place finger on sensor...'', Call GetImage (Returns NOFINGER),
             PrintNoNl ''.'', Call GetImage (Returns OK), Print ''Image taken'',
             PrintNoNl ''Templating...'', Call (Image2Tz 1) (Returns OK), Print ''Templated'',
             Print ''Remove finger'', Sleep 1, Call GetImage (Returns IMAGEFAIL),
             Call GetImage (Returns NOFINGER), PrintNoNl ''Place same finger again...'',
             Call GetImage (Returns NOFINGER), PrintNoNl ''.'', Call GetImage (Returns OK),
             Print ''Image taken'', PrintNoNl ''Templating...'',
             Call (Image2Tz 2) (Returns OK), Print ''Templated'',
             PrintNoNl ''Creating model...'', Call CreateModel (Returns OK), Print ''Created'',
             PrintNoNl ''Storing model #5...'', Call (StoreModel 5) (Returns FLASHERR),
             Print ''Flash storage error'']\<rparr>)"
    by (simp add: enroll_finger_def enroll_pass_def enroll_model_and_store_def primitive_defs
        str_int_def str_nat.simps)
  from enroll_true_iff_every_step_ok [of 5 ?ok] ok have stored:
    "Call (StoreModel 5) (Returns OK) \<in> set (trace (snd (enroll_finger 5 ?ok)))"
    by simp
  from enroll_true_iff_every_step_ok [of 5 ?fl] have
    "Call (StoreModel 5) (Returns FLASHERR) \<in>
       set (drop (length (trace ?fl)) (trace (snd (enroll_finger 5 ?fl)))) \<longrightarrow>
     (\<exists>n xs m post. NOFINGER \<notin> set xs \<and>
        drop (length (trace ?fl)) (trace (snd (enroll_finger 5 ?fl))) =
          first_pass_events n xs @ second_pass_events m @
          [PrintNoNl ''Creating model...'', Call CreateModel (Returns OK), Print ''Created'',
           PrintNoNl (''Storing model #'' @ str_int 5 @ ''...''),
           Call (StoreModel 5) (Returns FLASHERR)] @ post)"
    by blast
  with fl have preceded:
    "\<exists>n xs m post. NOFINGER \<notin> set xs \<and>
      trace (snd (enroll_finger 5 ?fl)) =
        first_pass_events n xs @ second_pass_events m @
        [PrintNoNl ''Creating model...'', Call CreateModel (Returns OK), Print ''Created'',
         PrintNoNl (''Storing model #'' @ str_int 5 @ ''...''),
         Call (StoreModel 5) (Returns FLASHERR)] @ post"
    by simp
  from answers have
    "NOFINGER \<notin> set [IMAGEFAIL]"
    "map Returns [NOFINGER, OK, OK, IMAGEFAIL, NOFINGER, NOFINGER, OK, OK, OK, OK] =
       map Returns (first_pass_answers 1 [IMAGEFAIL] @ second_pass_answers 1 @ [OK, OK]) @ []"
    by simp_all
  with ok true fl stored preceded show ?thesis
    by (intro conjI)
qed

section \<open>The removal wait\<close>

text \<open>
  C10: the removal wait between the passes ends only on \<^verbatim>\<open>NOFINGER\<close>. After any
  number of other answers \<open>xs\<close>, \<^verbatim>\<open>IMAGEFAIL\<close> among them, the loop has polled once per
  answer, the enrollment has not ended, and it is inside the next \<^verbatim>\<open>get_image\<close>; the
  \<^verbatim>\<open>NOFINGER\<close> that follows ends the wait and pass 2 begins.
\<close>

theorem removal_wait_exits_only_on_nofinger:
  assumes "NOFINGER \<notin> set xs"
  shows
    "enroll_finger location
       \<lparr>script = map Returns (replicate n NOFINGER @ [OK, OK] @ xs), trace = t\<rparr> =
     (Blocked,
      \<lparr>script = [],
         trace = t @ [PrintNoNl ''Place finger on sensor...''] @ dots n @
           [Call GetImage (Returns OK), Print ''Image taken'', PrintNoNl ''Templating...'',
            Call (Image2Tz 1) (Returns OK), Print ''Templated'', Print ''Remove finger'',
            Sleep 1] @ polls xs\<rparr>) \<and>
     enroll_finger location
       \<lparr>script = map Returns (replicate n NOFINGER @ [OK, OK] @ xs @ [NOFINGER]), trace = t\<rparr> =
     (Blocked,
      \<lparr>script = [],
         trace = t @ [PrintNoNl ''Place finger on sensor...''] @ dots n @
           [Call GetImage (Returns OK), Print ''Image taken'', PrintNoNl ''Templating...'',
            Call (Image2Tz 1) (Returns OK), Print ''Templated'', Print ''Remove finger'',
            Sleep 1] @ polls xs @
           [Call GetImage (Returns NOFINGER), PrintNoNl ''Place same finger again...'']\<rparr>)"
  using assms pass1_forward [of xs n "[]" t] pass_capture_blocked [of 2 0]
  by (simp add: enroll_forward first_pass_answers_def first_pass_events_def dots_def)

text \<open>
  C10 with \<^verbatim>\<open>IMAGEFAIL\<close>, \<^verbatim>\<open>OK\<close>, \<^verbatim>\<open>IMAGEFAIL\<close> during the wait.
\<close>

theorem removal_wait_exits_only_on_nofinger_witness:
  "NOFINGER \<notin> set [IMAGEFAIL, OK, IMAGEFAIL] \<and>
   enroll_finger 5 \<lparr>script = map Returns [NOFINGER, OK, OK, IMAGEFAIL, OK, IMAGEFAIL], trace = []\<rparr> =
     (Blocked,
      \<lparr>script = [],
          trace = [PrintNoNl ''Place finger on sensor...'', Call GetImage (Returns NOFINGER),
             PrintNoNl ''.'', Call GetImage (Returns OK), Print ''Image taken'',
             PrintNoNl ''Templating...'', Call (Image2Tz 1) (Returns OK), Print ''Templated'',
             Print ''Remove finger'', Sleep 1, Call GetImage (Returns IMAGEFAIL),
             Call GetImage (Returns OK), Call GetImage (Returns IMAGEFAIL)]\<rparr>) \<and>
   enroll_finger 5 \<lparr>script = map Returns [NOFINGER, OK, OK, IMAGEFAIL, OK, IMAGEFAIL, NOFINGER], trace = []\<rparr> =
     (Blocked,
      \<lparr>script = [],
          trace = [PrintNoNl ''Place finger on sensor...'', Call GetImage (Returns NOFINGER),
             PrintNoNl ''.'', Call GetImage (Returns OK), Print ''Image taken'',
             PrintNoNl ''Templating...'', Call (Image2Tz 1) (Returns OK), Print ''Templated'',
             Print ''Remove finger'', Sleep 1, Call GetImage (Returns IMAGEFAIL),
             Call GetImage (Returns OK), Call GetImage (Returns IMAGEFAIL),
             Call GetImage (Returns NOFINGER), PrintNoNl ''Place same finger again...'']\<rparr>)"
  using removal_wait_exits_only_on_nofinger
    [where xs = "[IMAGEFAIL, OK, IMAGEFAIL]" and location = 5 and n = 1 and t = "[]"]
  by (simp add: dots_def polls_def eval_nat_numeral)

end
